theory Spec2Isabelle
  imports Main "HOL-Library.Sublist"
begin

section \<open>Python strings\<close>

text \<open>
  Python \<open>str\<close> values are modelled as \<^typ>\<open>string\<close>. \<open>str.lower()\<close> is modelled on
  the ASCII letters, which is where it matters for the keywords the interpreter tests
  (\<open>exit\<close>, \<open>quit\<close>, \<open>macos\<close>, \<open>linux\<close>, \<open>windows\<close>, \<open>graph\<close>, \<open>chart\<close>, \<open>plot\<close>,
  \<open>table\<close>, \<open>y\<close>); other characters are left as they are.
\<close>

definition lower_char :: "char \<Rightarrow> char" where
  "lower_char c =
     (case map_of (zip ''ABCDEFGHIJKLMNOPQRSTUVWXYZ'' ''abcdefghijklmnopqrstuvwxyz'') c of
        None \<Rightarrow> c
      | Some d \<Rightarrow> d)"

definition lower :: "string \<Rightarrow> string" where
  "lower s = map lower_char s"

text \<open>\<open>w in s\<close> on strings: \<open>w\<close> occurs in \<open>s\<close> as a contiguous substring.\<close>

fun py_in :: "string \<Rightarrow> string \<Rightarrow> bool" where
  "py_in w [] = (w = [])"
| "py_in w (c # cs) = (prefix w (c # cs) \<or> py_in w cs)"

text \<open>\<open>any(word in s for word in words)\<close>.\<close>

definition any_in :: "string list \<Rightarrow> string \<Rightarrow> bool" where
  "any_in words s = list_ex (\<lambda>word. py_in word s) words"

definition nl :: string where
  "nl = [CHR 0x0A]"

definition sq :: string where
  "sq = [CHR 0x27]"

section \<open>Data model\<close>

text \<open>
  An exception: its class name and \<open>str(exception)\<close>. \<open>Exception\<close> is an
  instance of \<open>Exception\<close> or of one of its subclasses; \<open>BaseException\<close> is an
  instance of a class outside \<open>Exception\<close> (\<open>KeyboardInterrupt\<close>, \<open>SystemExit\<close>,
  \<open>GeneratorExit\<close>), which a handler \<open>except Exception\<close> does not catch.
\<close>

datatype exn = Exception string string | BaseException string string

fun str_of :: "exn \<Rightarrow> string" where
  "str_of (Exception cls msg) = msg"
| "str_of (BaseException cls msg) = msg"

fun is_exception :: "exn \<Rightarrow> bool" where
  "is_exception (Exception cls msg) = True"
| "is_exception (BaseException cls msg) = False"

type_synonym 'a result = "exn + 'a"

text \<open>The command-line arguments the interpreter reads (\<open>self.args\<close>).\<close>

record args =
  args_lang :: "string option"
  args_save_code :: bool
  args_exec :: bool
  args_display_code :: bool
  args_model :: "string option"
  args_mode :: "string option"

text \<open>The arguments of one \<open>save_history_json\<close> call: an interaction record.\<close>

record interaction =
  ir_task :: string
  ir_mode :: string
  ir_os_name :: string
  ir_language :: string
  ir_prompt :: string
  ir_code :: string
  ir_model :: "string option"

text \<open>What \<open>get_prompt\<close> returns: a bare string in Vision mode, a chat otherwise.\<close>

datatype messages =
    Text string
  | Chat "(string \<times> string option) list"

text \<open>
  The calls and effects of a session. \<open>ModePrompt\<close>,
  \<open>GenerateText\<close> and \<open>Dispatch\<close> record calls of the interpreter's own methods
  \<open>get_mode_prompt\<close>, \<open>generate_text\<close> and \<open>execute_code\<close>; the others record effects on
  the outside: console input and output, files, subprocesses, the package installer,
  the sleep and the history store.
\<close>

datatype event =
    ReadTask string
  | ModePrompt string string
  | Remove string
  | GenerateText string "string option"
  | Display string
  | SaveCode string string
  | Dispatch string string
  | Confirm string
  | RunScript string string
  | RunCommand string
  | RunCode string string
  | Install string string
  | Sleep nat
  | OpenResource string
  | SaveHistory interaction

text \<open>
  The interpreter object together with what it runs against: the lines still to be
  read from standard input and the outside world \<open>'w\<close> (environment variables, files,
  model providers, installed packages).
\<close>

record 'w state =
  INTERPRETER_LANGUAGE :: string
  SAVE_CODE :: bool
  EXECUTE_CODE :: bool
  DISPLAY_CODE :: bool
  INTERPRRETER_MODEL :: "string option"
  INTERPRETER_MODE :: string
  CODE_MODE :: bool
  SCRIPT_MODE :: bool
  COMMAND_MODE :: bool
  VISION_MODE :: bool
  system_message :: string
  config_values :: "string \<rightharpoonup> string"
  history :: "(string \<times> string) list"
  stdin :: "string list"
  world :: 'w

text \<open>
  The collaborators the interpreter calls and whose code is not part of the modelled
  files: the operating system, \<open>dotenv\<close>, the model providers, \<open>CodeInterpreter\<close>
  (\<open>ci_\<close>), \<open>PackageInstaller\<close> (\<open>pi_\<close>) and the file and history helpers of
  \<open>UtilityManager\<close> (\<open>um_\<close>). Each is a parameter: a function of the world that may
  raise and may change the world. \<open>save_history_json\<close>, which line 533 calls on the
  utility manager, is not among the methods of \<open>UtilityManager\<close> in
  \<open>utility_manager.py\<close>: \<open>um_save_history_json\<close> stands for whatever the attribute
  resolves to, and raises where it resolves to nothing. \<open>um_extract_file_name\<close> stands for the regular
  expression search of \<open>UtilityManager.extract_file_name\<close>, \<open>read_file_data\<close> for the
  extension-dependent read of an attached file (rendered with \<open>str\<close>), and
  \<open>completion\<close> for the provider request with the parameters taken from the
  configuration followed by \<open>_extract_content\<close>.
\<close>

record 'w env =
  uname_system :: "'w \<Rightarrow> string"
  read_system_message :: "'w \<Rightarrow> string result"
  load_dotenv :: "'w \<Rightarrow> 'w"
  load_dotenv_cwd :: "'w \<Rightarrow> 'w"
  getenv :: "'w \<Rightarrow> string \<Rightarrow> string option"
  um_read_config_file :: "'w \<Rightarrow> string \<Rightarrow> (string \<rightharpoonup> string) result"
  um_extract_file_name :: "string \<Rightarrow> string option"
  isabs :: "string \<Rightarrow> bool"
  getcwd :: "'w \<Rightarrow> string"
  path_join :: "string \<Rightarrow> string \<Rightarrow> string"
  isfile :: "'w \<Rightarrow> string \<Rightarrow> bool"
  os_remove :: "string \<Rightarrow> 'w \<Rightarrow> unit result \<times> 'w"
  getsize :: "'w \<Rightarrow> string \<Rightarrow> nat result"
  read_file_data :: "'w \<Rightarrow> string \<Rightarrow> string result"
  completion :: "(string \<rightharpoonup> string) \<Rightarrow> string \<Rightarrow> messages \<Rightarrow> 'w \<Rightarrow> string result \<times> 'w"
  gemini_import :: "'w \<Rightarrow> unit result"
  gemini_vision_url :: "messages \<Rightarrow> string \<Rightarrow> 'w \<Rightarrow> string result \<times> 'w"
  gemini_vision_path :: "messages \<Rightarrow> string \<Rightarrow> 'w \<Rightarrow> string result \<times> 'w"
  ci_extract_code :: "string \<Rightarrow> string \<Rightarrow> string \<Rightarrow> bool \<Rightarrow> bool \<Rightarrow> string option result"
  strftime :: "'w \<Rightarrow> string"
  ci_save_code :: "string \<Rightarrow> string \<Rightarrow> 'w \<Rightarrow> unit result \<times> 'w"
  ci_execute_script :: "string \<Rightarrow> string \<Rightarrow> 'w \<Rightarrow> (string option \<times> string option) result \<times> 'w"
  ci_execute_command :: "string \<Rightarrow> 'w \<Rightarrow> (string option \<times> string option) result \<times> 'w"
  ci_execute_code :: "string \<Rightarrow> string \<Rightarrow> 'w \<Rightarrow> (string option \<times> string option) result \<times> 'w"
  pi_extract_package_name :: "string \<Rightarrow> string \<Rightarrow> 'w \<Rightarrow> string option result"
  pi_install_package :: "string \<Rightarrow> string \<Rightarrow> 'w \<Rightarrow> unit result \<times> 'w"
  subprocess_open :: "string \<Rightarrow> 'w \<Rightarrow> unit result \<times> 'w"
  um_save_history_json :: "interaction \<Rightarrow> 'w \<Rightarrow> unit result \<times> 'w"

section \<open>Sequencing statements\<close>

text \<open>
  A statement takes the state and returns either the value it computed or the
  exception it raised, the events it gave rise to, in order, and the state it leaves.
\<close>

type_synonym ('w, 'a) action = "'w state \<Rightarrow> 'a result \<times> event list \<times> 'w state"

definition ret :: "'a \<Rightarrow> ('w, 'a) action" where
  "ret x s = (Inr x, [], s)"

definition throw :: "exn \<Rightarrow> ('w, 'a) action" where
  "throw e s = (Inl e, [], s)"

definition seq :: "('w, 'a) action \<Rightarrow> ('a \<Rightarrow> ('w, 'b) action) \<Rightarrow> ('w, 'b) action" where
  "seq m f s =
     (case m s of
        (Inl e, es, s') \<Rightarrow> (Inl e, es, s')
      | (Inr x, es, s') \<Rightarrow> (case f x s' of (r, es', s'') \<Rightarrow> (r, es @ es', s'')))"

text \<open>
  \<open>try: m except Exception as e: h e\<close>. What \<open>m\<close> raises outside \<open>Exception\<close>
  passes through the handler.
\<close>

definition try_except :: "('w, 'a) action \<Rightarrow> (exn \<Rightarrow> ('w, 'a) action) \<Rightarrow> ('w, 'a) action" where
  "try_except m h s =
     (case m s of
        (Inl e, es, s') \<Rightarrow>
          if is_exception e then (case h e s' of (r, es', s'') \<Rightarrow> (r, es @ es', s''))
          else (Inl e, es, s')
      | (Inr x, es, s') \<Rightarrow> (Inr x, es, s'))"

definition get_state :: "('w, 'w state) action" where
  "get_state s = (Inr s, [], s)"

definition emit :: "event \<Rightarrow> ('w, unit) action" where
  "emit e s = (Inr (), [e], s)"

text \<open>A collaborator that may change the world, and one that only reads it.\<close>

definition call :: "('w \<Rightarrow> 'a result \<times> 'w) \<Rightarrow> ('w, 'a) action" where
  "call f s = (case f (world s) of (r, w) \<Rightarrow> (r, [], s\<lparr>world := w\<rparr>))"

definition query :: "('w \<Rightarrow> 'a result) \<Rightarrow> ('w, 'a) action" where
  "query f s = (f (world s), [], s)"

text \<open>\<open>input(...)\<close>: the next line of standard input, \<open>EOFError\<close> when there is none.\<close>

definition input_line :: "('w, string) action" where
  "input_line s =
     (case stdin s of
        [] \<Rightarrow> (Inl (Exception ''EOFError'' ''EOF when reading a line''), [], s)
      | l # ls \<Rightarrow> (Inr l, [], s\<lparr>stdin := ls\<rparr>))"

definition modify :: "('w state \<Rightarrow> 'w state) \<Rightarrow> ('w, unit) action" where
  "modify f s = (Inr (), [], f s)"

text \<open>Truthiness of an optional string (\<open>None\<close> and \<open>""\<close> are false) and its text.\<close>

fun truthy :: "string option \<Rightarrow> bool" where
  "truthy None = False"
| "truthy (Some x) = (x \<noteq> [])"

fun str_val :: "string option \<Rightarrow> string" where
  "str_val None = ''None''"
| "str_val (Some x) = x"

section \<open>Initialisation\<close>

text \<open>\<open>Interpreter.initialize_mode\<close>.\<close>

definition initialize_mode :: "args \<Rightarrow> 'w state \<Rightarrow> 'w state" where
  "initialize_mode a s =
     (let s1 = s\<lparr>CODE_MODE := (args_mode a = Some ''code''),
                 SCRIPT_MODE := (args_mode a = Some ''script''),
                 COMMAND_MODE := (args_mode a = Some ''command''),
                 VISION_MODE := (args_mode a = Some ''vision'')\<rparr>
      in if \<not> SCRIPT_MODE s1 \<and> \<not> COMMAND_MODE s1 \<and> \<not> VISION_MODE s1
         then s1\<lparr>CODE_MODE := True\<rparr>
         else s1)"

text \<open>
  The two-step lookup that precedes every key validation of \<open>initialize_client\<close>:
  when the variable is not set, load \<open>.env\<close>; when it is still not set, load the
  \<open>.env\<close> of the working directory.
\<close>

definition load_if_missing :: "'w env \<Rightarrow> string \<Rightarrow> ('w, unit) action" where
  "load_if_missing env name s =
     (let w1 = (if getenv env (world s) name = None then load_dotenv env (world s) else world s);
          w2 = (if getenv env w1 name = None then load_dotenv_cwd env w1 else w1)
      in (Inr (), [], s\<lparr>world := w2\<rparr>))"

definition read_env :: "'w env \<Rightarrow> string \<Rightarrow> ('w, string option) action" where
  "read_env env name s = (Inr (getenv env (world s) name), [], s)"

text \<open>The body of \<open>if "gpt" in self.INTERPRRETER_MODEL\<close>.\<close>

definition validate_openai :: "'w env \<Rightarrow> ('w, unit) action" where
  "validate_openai env =
     seq (load_if_missing env ''OPENAI_API_KEY'') (\<lambda>_.
     seq (read_env env ''OPENAI_API_KEY'') (\<lambda>hf_key.
       if \<not> truthy hf_key then
         throw (Exception ''Exception'' ''OpenAI Key not found in .env file.'')
       else if \<not> prefix ''sk-'' (str_val hf_key) then
         throw (Exception ''Exception''
           (''OpenAI token should start with 'sk-'. Please check your .env file.''))
       else ret ()))"

text \<open>The body of the \<open>for\<close> loop over \<open>model_api_keys\<close>, once the model matched.\<close>

definition validate_api_key :: "'w env \<Rightarrow> string \<Rightarrow> ('w, unit) action" where
  "validate_api_key env api_key_name =
     seq (load_if_missing env api_key_name) (\<lambda>_.
     seq (read_env env api_key_name) (\<lambda>api_key.
       if \<not> truthy api_key then
         throw (Exception ''Exception'' (api_key_name @ '' not found in .env file.''))
       else if CHR '' '' \<in> set (str_val api_key) \<or> length (str_val api_key) \<le> 15 then
         throw (Exception ''Exception'' (api_key_name @
           '' should have no spaces, length greater than 15. Please check your .env file.''))
       else ret ()))"

text \<open>The \<open>else\<close> clause of the \<open>for\<close> loop.\<close>

definition validate_huggingface :: "'w env \<Rightarrow> ('w, unit) action" where
  "validate_huggingface env =
     seq (load_if_missing env ''HUGGINGFACE_API_KEY'') (\<lambda>_.
     seq (read_env env ''HUGGINGFACE_API_KEY'') (\<lambda>hf_key.
       if \<not> truthy hf_key then
         throw (Exception ''Exception'' ''HuggingFace token not found in .env file.'')
       else if \<not> prefix ''hf_'' (str_val hf_key) then
         throw (Exception ''Exception''
           (''HuggingFace token should start with 'hf_'. Please check your .env file.''))
       else ret ()))"

definition model_api_keys :: "(string \<times> string) list" where
  "model_api_keys = [(''palm'', ''PALM_API_KEY''), (''gemini-pro'', ''GEMINI_API_KEY'')]"

text \<open>
  \<open>for model, api_key_name in model_api_keys.items(): ... else: ...\<close>. The loop body
  has no \<open>break\<close>, so the \<open>else\<close> clause runs whenever the loop runs out of items.
\<close>

fun validate_model_keys :: "'w env \<Rightarrow> string \<Rightarrow> (string \<times> string) list \<Rightarrow> ('w, unit) action" where
  "validate_model_keys env model_id [] = validate_huggingface env"
| "validate_model_keys env model_id ((model, api_key_name) # items) =
     seq (if py_in model model_id then validate_api_key env api_key_name else ret ()) (\<lambda>_.
       validate_model_keys env model_id items)"

text \<open>
  \<open>Interpreter.initialize_client\<close>. With no model name, line 117 calls \<open>strip\<close> on
  \<open>None\<close>, which raises \<open>AttributeError\<close>.
\<close>

definition initialize_client :: "'w env \<Rightarrow> ('w, unit) action" where
  "initialize_client env =
     seq (modify (\<lambda>s. s\<lparr>world := load_dotenv env (world s)\<rparr>)) (\<lambda>_.
     seq get_state (\<lambda>s.
       case INTERPRRETER_MODEL s of
         None \<Rightarrow> throw (Exception ''AttributeError''
                   (sq @ ''NoneType' object has no attribute 'strip'' @ sq))
       | Some given \<Rightarrow>
           (let config_file_name =
                  (if given = [] then ''configs/gpt-3.5-turbo.config''
                   else ''configs/'' @ given @ ''.config'')
            in seq (query (\<lambda>w. um_read_config_file env w config_file_name)) (\<lambda>cfg.
               let model_id = (case cfg ''HF_MODEL'' of None \<Rightarrow> given | Some v \<Rightarrow> v)
               in seq (modify (\<lambda>s. s\<lparr>config_values := cfg,
                                        INTERPRRETER_MODEL := Some model_id\<rparr>)) (\<lambda>_.
                  seq (if py_in ''gpt'' model_id then validate_openai env else ret ()) (\<lambda>_.
                    validate_model_keys env model_id model_api_keys))))))"

text \<open>
  \<open>Interpreter.initialize\<close> (the optional readline history, whose failure is only
  logged, is left out).
\<close>

definition initialize :: "'w env \<Rightarrow> args \<Rightarrow> ('w, unit) action" where
  "initialize env a =
     seq (modify (\<lambda>s. s\<lparr>
            INTERPRETER_LANGUAGE := (if truthy (args_lang a) then str_val (args_lang a) else ''python''),
            SAVE_CODE := args_save_code a,
            EXECUTE_CODE := args_exec a,
            DISPLAY_CODE := args_display_code a,
            INTERPRRETER_MODEL := (if truthy (args_model a) then args_model a else None),
            system_message := [],
            INTERPRETER_MODE := ''code''\<rparr>)) (\<lambda>_.
     seq (query (read_system_message env)) (\<lambda>content.
     seq (modify (\<lambda>s. s\<lparr>system_message := content\<rparr>)) (\<lambda>_.
     seq (initialize_client env) (\<lambda>_.
       modify (initialize_mode a)))))"

section \<open>Prompt Builder\<close>

text \<open>\<open>Interpreter.get_prompt\<close>: the messages sent to the provider.\<close>

definition chat :: "string option \<Rightarrow> string \<Rightarrow> messages" where
  "chat system message =
     Chat [(''system'', system),
           (''assistant'', Some ''Please generate code wrapped inside triple backticks known as codeblock.''),
           (''user'', Some message)]"

definition get_prompt :: "'w state \<Rightarrow> string \<Rightarrow> messages" where
  "get_prompt s message =
     (if CODE_MODE s then chat (Some (system_message s)) message
      else if SCRIPT_MODE s then
        chat (Some ''Please generate a well-written script that is precise, easy to understand, and compatible with the current operating system.'') message
      else if COMMAND_MODE s then
        chat (Some ''Please generate a single line command that is precise, easy to understand, and compatible with the current operating system.'') message
      else if VISION_MODE s then
        Text ''Please generate a well-written description of the image that is precise, easy to understand''
      else chat None message)"

definition get_code_prompt :: "string \<Rightarrow> string \<Rightarrow> ('w, string) action" where
  "get_code_prompt task os_name =
     seq get_state (\<lambda>s.
       let prompt = ''Generate the code in '' @ INTERPRETER_LANGUAGE s @ '' language for this task ''
                    @ sq @ task @ '' for Operating System: '' @ os_name @ sq @ ''.''
       in seq (modify (\<lambda>s. s\<lparr>history := history s @ [(task, prompt)]\<rparr>)) (\<lambda>_. ret prompt))"

definition language_map :: "string \<Rightarrow> string option" where
  "language_map = [''macos'' \<mapsto> ''applescript'', ''linux'' \<mapsto> ''bash'', ''windows'' \<mapsto> ''powershell'']"

definition script_type :: "string \<Rightarrow> string" where
  "script_type os_name =
     (if lower os_name = ''macos'' then ''Apple script''
      else if lower os_name = ''linux'' then ''Bash Shell script''
      else if lower os_name = ''windows'' then ''Powershell script''
      else ''script'')"

definition get_script_prompt :: "string \<Rightarrow> string \<Rightarrow> ('w, string) action" where
  "get_script_prompt task os_name =
     seq (modify (\<lambda>s. s\<lparr>INTERPRETER_LANGUAGE :=
            (case language_map (lower os_name) of None \<Rightarrow> ''python'' | Some l \<Rightarrow> l)\<rparr>)) (\<lambda>_.
       ret (nl @ ''Generate '' @ script_type os_name
            @ '' for this prompt and make this script easy to read and understand for this task ''
            @ sq @ task @ '' for Operating System is '' @ os_name @ sq @ ''.''))"

definition get_command_prompt :: "string \<Rightarrow> string \<Rightarrow> ('w, string) action" where
  "get_command_prompt task os_name =
     ret (''Generate the single terminal command for this task '' @ sq @ task
          @ '' for Operating System is '' @ os_name @ sq @ ''.'')"

definition handle_vision_mode :: "string \<Rightarrow> ('w, string) action" where
  "handle_vision_mode task =
     ret (''Give accurate and detailed information about the image provided and be very detailed about the image ''
          @ sq @ task @ sq @ ''.'')"

text \<open>
  \<open>Interpreter.get_mode_prompt\<close>; with no mode flag set the Python function falls off
  its end and returns \<open>None\<close>.
\<close>

definition get_mode_prompt :: "string \<Rightarrow> string \<Rightarrow> ('w, string option) action" where
  "get_mode_prompt task os_name =
     seq (emit (ModePrompt task os_name)) (\<lambda>_.
     seq get_state (\<lambda>s.
       if CODE_MODE s then seq (get_code_prompt task os_name) (\<lambda>p. ret (Some p))
       else if SCRIPT_MODE s then seq (get_script_prompt task os_name) (\<lambda>p. ret (Some p))
       else if COMMAND_MODE s then seq (get_command_prompt task os_name) (\<lambda>p. ret (Some p))
       else if VISION_MODE s then seq (handle_vision_mode task) (\<lambda>p. ret (Some p))
       else ret None))"

subsection \<open>Keyword augmentation\<close>

text \<open>Lines 431 to 450 of \<open>interpreter_main\<close>, as functions of the target language and the prompt.\<close>

definition graph_augment :: "string \<Rightarrow> string \<Rightarrow> string" where
  "graph_augment language prompt =
     (if any_in [''graph'', ''graphs''] (lower prompt) then
        (if language = ''python'' then
           prompt @ nl @ ''using Python use Matplotlib save the graph in file called 'graph.png'' @ sq
         else if language = ''javascript'' then
           prompt @ nl @ ''using JavaScript use Chart.js save the graph in file called 'graph.png'' @ sq
         else prompt)
      else prompt)"

definition chart_augment :: "string \<Rightarrow> string \<Rightarrow> string" where
  "chart_augment language prompt =
     (if any_in [''chart'', ''charts'', ''plot'', ''plots''] (lower prompt) then
        (if language = ''python'' then
           prompt @ nl @ ''using Python use Plotly save the chart in file called 'chart.png'' @ sq
         else if language = ''javascript'' then
           prompt @ nl @ ''using JavaScript use Chart.js save the chart in file called 'chart.png'' @ sq
         else prompt)
      else prompt)"

definition table_augment :: "string \<Rightarrow> string \<Rightarrow> string" where
  "table_augment language prompt =
     (if py_in ''table'' (lower prompt) then
        (if language = ''python'' then
           prompt @ nl @ ''using Python use Pandas save the table in file called 'table.md'' @ sq
         else if language = ''javascript'' then
           prompt @ nl @ ''using JavaScript use DataTables save the table in file called 'table.html'' @ sq
         else prompt)
      else prompt)"

definition augment_prompt :: "string \<Rightarrow> string \<Rightarrow> string" where
  "augment_prompt language prompt =
     table_augment language (chart_augment language (graph_augment language prompt))"

section \<open>Session Loop\<close>

subsection \<open>Transient resource files\<close>

definition files_to_remove :: "string list" where
  "files_to_remove = [''graph.png'', ''chart.png'', ''table.md'']"

text \<open>
  One round of the loop of \<open>_clean_responses\<close>: a file that exists is removed; a
  failure of the removal is printed and the loop goes on.
\<close>

definition remove_if_file :: "'w env \<Rightarrow> string \<Rightarrow> ('w, unit) action" where
  "remove_if_file env file =
     seq get_state (\<lambda>s.
       if isfile env (world s) file then
         try_except
           (seq (emit (Remove file)) (\<lambda>_. call (os_remove env file)))
           (\<lambda>e. emit (Display (''Error in removing '' @ file @ '': '' @ str_of e)))
       else ret ())"

fun for_each :: "('a \<Rightarrow> ('w, unit) action) \<Rightarrow> 'a list \<Rightarrow> ('w, unit) action" where
  "for_each body [] = ret ()"
| "for_each body (x # xs) = seq (body x) (\<lambda>_. for_each body xs)"

definition clean_responses :: "'w env \<Rightarrow> ('w, unit) action" where
  "clean_responses env = for_each (remove_if_file env) files_to_remove"

text \<open>\<open>_open_resource_file\<close>: the platform's opener is one collaborator.\<close>

definition open_resource_file :: "'w env \<Rightarrow> string \<Rightarrow> ('w, unit) action" where
  "open_resource_file env filename =
     seq get_state (\<lambda>s.
       if isfile env (world s) filename then
         try_except
           (seq (emit (OpenResource filename)) (\<lambda>_. call (subprocess_open env filename)))
           (\<lambda>e. emit (Display (''Error in opening files: '' @ str_of e)))
       else ret ())"

definition open_resources :: "'w env \<Rightarrow> ('w, unit) action" where
  "open_resources env = for_each (open_resource_file env) files_to_remove"

subsection \<open>File named in the prompt\<close>

text \<open>\<open>UtilityManager.get_full_file_path\<close>.\<close>

definition get_full_file_path :: "'w env \<Rightarrow> 'w \<Rightarrow> string \<Rightarrow> string option" where
  "get_full_file_path env w file_name =
     (if file_name = [] then None
      else if \<not> isabs env file_name then Some (path_join env (getcwd env w) file_name)
      else Some file_name)"

definition is_url :: "string \<Rightarrow> bool" where
  "is_url name = (py_in ''http'' name \<or> py_in ''https'' name \<or> py_in ''www.'' name)"

text \<open>
  Lines 378 to 429: returns the extracted file name and the prompt, extended with the
  file's data when the file is small enough, readable, and the prompt asks for a graph
  or a chart. \<open>os.path.isfile(None)\<close> raises \<open>TypeError\<close>; a failure of the
  read inside \<open>Exception\<close> is logged and the prompt stays as it was.
\<close>

definition attach_file_data :: "'w env \<Rightarrow> string \<Rightarrow> ('w, string option \<times> string) action" where
  "attach_file_data env prompt =
     (case um_extract_file_name env prompt of
        None \<Rightarrow> ret (None, prompt)
      | Some extracted_file_name \<Rightarrow>
          seq get_state (\<lambda>s.
            let full_path = get_full_file_path env (world s) extracted_file_name in
            if is_url extracted_file_name then ret (Some extracted_file_name, prompt)
            else
              (case full_path of
                 None \<Rightarrow> throw (Exception ''TypeError''
                           ''stat: path should be string, bytes, os.PathLike or integer, not NoneType'')
               | Some path \<Rightarrow>
                   if isfile env (world s) path then
                     seq (query (\<lambda>w. getsize env w path)) (\<lambda>file_size.
                       if file_size < 50000 then
                         (case read_file_data env (world s) path of
                            Inl exception \<Rightarrow>
                              if is_exception exception then ret (Some extracted_file_name, prompt)
                              else throw exception
                          | Inr file_data \<Rightarrow>
                              if any_in [''graph'', ''graphs'', ''chart'', ''charts''] (lower prompt) then
                                ret (Some extracted_file_name,
                                     prompt @ nl @ ''This is file data from user input: '' @ file_data
                                     @ '' use this to analyze the data.'')
                              else ret (Some extracted_file_name, prompt))
                       else ret (Some extracted_file_name, prompt))
                   else ret (Some extracted_file_name, prompt))))"

subsection \<open>Model Client\<close>

definition set_model :: "string \<Rightarrow> ('w, unit) action" where
  "set_model model_id = modify (\<lambda>s. s\<lparr>INTERPRRETER_MODEL := Some model_id\<rparr>)"

text \<open>
  \<open>Interpreter.generate_text\<close>: the routing on the model identifier and the rewriting
  of \<open>INTERPRRETER_MODEL\<close>. The local \<open>api_base\<close> is assigned only under
  \<open>if config_values:\<close> and read only for a \<open>gpt\<close> model, where an empty
  configuration therefore raises \<open>UnboundLocalError\<close>.
\<close>

definition generate_text :: "'w env \<Rightarrow> string \<Rightarrow> string option \<Rightarrow> ('w, string) action" where
  "generate_text env message image_file =
     seq (emit (GenerateText message image_file)) (\<lambda>_.
     seq get_state (\<lambda>s.
       let messages = get_prompt s message; config = config_values s in
       case INTERPRRETER_MODEL s of
         None \<Rightarrow> throw (Exception ''TypeError'' (''argument of type 'NoneType' is not iterable''))
       | Some model_id \<Rightarrow>
           if py_in ''gpt'' model_id then
             (if config = Map.empty then
                throw (Exception ''UnboundLocalError''
                         (''local variable 'api_base' referenced before assignment''))
              else call (completion env config model_id messages))
           else if py_in ''palm'' model_id then
             seq (set_model ''palm/chat-bison'') (\<lambda>_.
               call (completion env config ''palm/chat-bison'' messages))
           else if py_in ''gemini'' model_id then
             (if INTERPRETER_MODE s = ''Vision'' then
                seq (query (gemini_import env)) (\<lambda>_.
                  if \<not> truthy image_file then
                    throw (Exception ''ValueError'' ''Image file is not valid or Corrupted.'')
                  else if is_url (str_val image_file) then
                    call (gemini_vision_url env messages (str_val image_file))
                  else call (gemini_vision_path env messages (str_val image_file)))
              else
                seq (set_model ''gemini/gemini-pro'') (\<lambda>_.
                  call (completion env config ''gemini/gemini-pro'' messages)))
           else
             (let hosted = (if py_in ''huggingface/'' model_id then model_id
                            else ''huggingface/'' @ model_id)
              in seq (set_model hosted) (\<lambda>_.
                   call (completion env config hosted messages)))))"

subsection \<open>Execution Dispatcher\<close>

definition confirm_execute :: "('w, string) action" where
  "confirm_execute = seq input_line (\<lambda>answer. seq (emit (Confirm answer)) (\<lambda>_. ret answer))"

text \<open>\<open>Interpreter.execute_code\<close>.\<close>

definition execute_code :: "'w env \<Rightarrow> string \<Rightarrow> string \<Rightarrow> ('w, string option \<times> string option) action" where
  "execute_code env extracted_code os_name =
     seq (emit (Dispatch extracted_code os_name)) (\<lambda>_.
     seq get_state (\<lambda>s.
       if INTERPRETER_MODE s = ''Vision'' then ret (None, None)
       else
         seq (if EXECUTE_CODE s then ret ''y'' else confirm_execute) (\<lambda>execute.
           if lower execute = ''y'' then
             try_except
               (if SCRIPT_MODE s then
                  seq (emit (RunScript extracted_code os_name)) (\<lambda>_.
                    call (ci_execute_script env extracted_code os_name))
                else if COMMAND_MODE s then
                  seq (emit (RunCommand extracted_code)) (\<lambda>_.
                    call (ci_execute_command env extracted_code))
                else if CODE_MODE s then
                  seq (emit (RunCode extracted_code (INTERPRETER_LANGUAGE s))) (\<lambda>_.
                    call (ci_execute_code env extracted_code (INTERPRETER_LANGUAGE s)))
                else ret (Some [], Some []))
               (\<lambda>exception. ret (None, Some (str_of exception)))
           else ret (None, None))))"

subsection \<open>Recovery Loop\<close>

text \<open>The display of an execution result (lines 494 to 500, and again 513 to 519).\<close>

definition show_result :: "string option \<times> string option \<Rightarrow> ('w, unit) action" where
  "show_result r =
     (case r of (code_output, code_error) \<Rightarrow>
        if truthy code_output then emit (Display (str_val code_output))
        else if truthy code_error then emit (Display (''Error: '' @ str_val code_error))
        else ret ())"

definition error_messages :: "string list" where
  "error_messages = [''ModuleNotFound'', ''ImportError'', ''No module named'', ''Cannot find module'']"

text \<open>Lines 502 to 519: install the missing package and execute the code again.\<close>

definition install_on_error :: "'w env \<Rightarrow> string \<Rightarrow> string \<Rightarrow> string option \<Rightarrow> ('w, unit) action" where
  "install_on_error env extracted_code os_name code_error =
     (case code_error of
        None \<Rightarrow> ret ()
      | Some error_text \<Rightarrow>
          if any_in error_messages error_text then
            seq get_state (\<lambda>s.
            seq (query (pi_extract_package_name env error_text (INTERPRETER_LANGUAGE s))) (\<lambda>package_name.
              if truthy package_name then
                seq (emit (Install (str_val package_name) (INTERPRETER_LANGUAGE s))) (\<lambda>_.
                seq (call (pi_install_package env (str_val package_name) (INTERPRETER_LANGUAGE s))) (\<lambda>_.
                seq (emit (Sleep 10)) (\<lambda>_.
                seq (execute_code env extracted_code os_name) (\<lambda>second.
                  show_result second))))
              else ret ()))
          else ret ())"

subsection \<open>One iteration\<close>

text \<open>Lines 473 to 489: where the extracted code is saved, if it is.\<close>

definition save_extracted_code :: "'w env \<Rightarrow> string \<Rightarrow> ('w, unit) action" where
  "save_extracted_code env extracted_code =
     seq get_state (\<lambda>s.
       let current_time = strftime env (world s);
           save = (\<lambda>path. seq (emit (SaveCode path extracted_code)) (\<lambda>_.
                     call (ci_save_code env path extracted_code)))
       in if INTERPRETER_LANGUAGE s = ''javascript'' \<and> SAVE_CODE s \<and> CODE_MODE s then
            save (''output/code_'' @ current_time @ ''.js'')
          else if INTERPRETER_LANGUAGE s = ''python'' \<and> SAVE_CODE s \<and> CODE_MODE s then
            save (''output/code_'' @ current_time @ ''.py'')
          else if SAVE_CODE s \<and> COMMAND_MODE s then
            save (''output/command_'' @ current_time @ ''.txt'')
          else if SAVE_CODE s \<and> SCRIPT_MODE s then
            save (''output/script_'' @ current_time @ ''.txt'')
          else ret ())"

text \<open>Lines 472 to 531: what is done with non-empty extracted code.\<close>

definition run_extracted_code :: "'w env \<Rightarrow> string \<Rightarrow> string \<Rightarrow> ('w, unit) action" where
  "run_extracted_code env extracted_code os_name =
     seq (save_extracted_code env extracted_code) (\<lambda>_.
     seq (execute_code env extracted_code os_name) (\<lambda>first.
     seq (show_result first) (\<lambda>_.
     seq (install_on_error env extracted_code os_name (snd first)) (\<lambda>_.
       open_resources env))))"

text \<open>Line 533: the interaction record handed to \<open>save_history_json\<close>.\<close>

definition save_history :: "'w env \<Rightarrow> string \<Rightarrow> string \<Rightarrow> string \<Rightarrow> string \<Rightarrow> ('w, unit) action" where
  "save_history env task os_name prompt extracted_code =
     seq get_state (\<lambda>s.
       let entry = \<lparr>ir_task = task, ir_mode = INTERPRETER_MODE s, ir_os_name = os_name,
                    ir_language = INTERPRETER_LANGUAGE s, ir_prompt = prompt,
                    ir_code = extracted_code, ir_model = INTERPRRETER_MODEL s\<rparr>
       in seq (emit (SaveHistory entry)) (\<lambda>_. call (um_save_history_json env entry)))"

text \<open>
  Lines 373 to 450: the mode's prompt, the clean-up, the file named in the prompt and
  the keyword augmentation. A prompt of \<open>None\<close> makes \<open>extract_file_name\<close> raise.
\<close>

definition build_prompt :: "'w env \<Rightarrow> string \<Rightarrow> string \<Rightarrow> ('w, string option \<times> string) action" where
  "build_prompt env task os_name =
     seq (get_mode_prompt task os_name) (\<lambda>mode_prompt.
     seq (clean_responses env) (\<lambda>_.
       case mode_prompt of
         None \<Rightarrow> throw (Exception ''TypeError'' ''expected string or bytes-like object'')
       | Some prompt \<Rightarrow>
           seq (attach_file_data env prompt) (\<lambda>(extracted_file_name, prompt).
           seq get_state (\<lambda>s.
             ret (extracted_file_name, augment_prompt (INTERPRETER_LANGUAGE s) prompt)))))"

text \<open>
  Lines 461 to 533: what follows the model's answer outside Vision mode. An extractor
  that returns \<open>None\<close> makes the slice of line 466 raise.
\<close>

definition handle_output ::
  "'w env \<Rightarrow> string \<Rightarrow> string \<Rightarrow> string \<Rightarrow> string \<Rightarrow> bool \<Rightarrow> string \<Rightarrow> string \<Rightarrow> ('w, unit) action" where
  "handle_output env task os_name start_sep end_sep skip_first_line prompt generated_output =
     seq get_state (\<lambda>s.
     seq (query (\<lambda>w. ci_extract_code env generated_output start_sep end_sep skip_first_line (CODE_MODE s))) (\<lambda>extracted.
       case extracted of
         None \<Rightarrow> throw (Exception ''TypeError'' (sq @ ''NoneType' object is not subscriptable''))
       | Some extracted_code \<Rightarrow>
           seq (if DISPLAY_CODE s then emit (Display extracted_code) else ret ()) (\<lambda>_.
           seq (if extracted_code \<noteq> [] then run_extracted_code env extracted_code os_name else ret ()) (\<lambda>_.
             save_history env task os_name prompt extracted_code))))"

text \<open>The body of the loop for a task that is not \<open>exit\<close> or \<open>quit\<close> (lines 373 to 533).\<close>

definition handle_task ::
  "'w env \<Rightarrow> string \<Rightarrow> string \<Rightarrow> string \<Rightarrow> bool \<Rightarrow> string \<Rightarrow> ('w, unit) action" where
  "handle_task env os_name start_sep end_sep skip_first_line task =
     seq (build_prompt env task os_name) (\<lambda>(extracted_file_name, prompt).
     seq (generate_text env prompt extracted_file_name) (\<lambda>generated_output.
     seq get_state (\<lambda>s.
       if INTERPRETER_MODE s = ''Vision'' then emit (Display generated_output)
       else handle_output env task os_name start_sep end_sep skip_first_line prompt generated_output)))"

datatype loop_signal = Break | Continue

text \<open>
  One pass through the body of \<open>while True\<close>. An exception is logged and raised again
  by the handler of lines 535 to 537, so it leaves the iteration as it is.
\<close>

definition iteration ::
  "'w env \<Rightarrow> string \<Rightarrow> string \<Rightarrow> string \<Rightarrow> bool \<Rightarrow> ('w, loop_signal) action" where
  "iteration env os_name start_sep end_sep skip_first_line =
     seq input_line (\<lambda>task.
     seq (emit (ReadTask task)) (\<lambda>_.
       if lower task \<in> set [''exit'', ''quit''] then ret Break
       else seq (handle_task env os_name start_sep end_sep skip_first_line task) (\<lambda>_. ret Continue)))"

text \<open>
  \<open>while True\<close>: the loop ends at a \<open>break\<close> or at an exception; a session that never
  ends has no result.
\<close>

partial_function (option) session_loop ::
  "'w env \<Rightarrow> string \<Rightarrow> string \<Rightarrow> string \<Rightarrow> bool \<Rightarrow> 'w state
     \<Rightarrow> (unit result \<times> event list \<times> 'w state) option" where
  "session_loop env os_name start_sep end_sep skip_first_line s =
     (let (r, es, s') = iteration env os_name start_sep end_sep skip_first_line s in
      if r = Inr Continue then
        Option.bind (session_loop env os_name start_sep end_sep skip_first_line s')
          (\<lambda>(r', es', s''). Some (r', es @ es', s''))
      else Some (map_sum id (\<lambda>_. ()) r, es, s'))"

text \<open>\<open>UtilityManager.get_os_platform\<close>, first component.\<close>

definition get_os_platform :: "'w env \<Rightarrow> 'w \<Rightarrow> string" where
  "get_os_platform env w =
     (case [''Darwin'' \<mapsto> ''MacOS'', ''Linux'' \<mapsto> ''Linux'', ''Windows'' \<mapsto> ''Windows'']
             (uname_system env w) of
        None \<Rightarrow> ''Other''
      | Some os_name \<Rightarrow> os_name)"

text \<open>Lines 349 to 355 of \<open>interpreter_main\<close>.\<close>

definition set_interpreter_mode :: "'w state \<Rightarrow> 'w state" where
  "set_interpreter_mode s =
     (if SCRIPT_MODE s then s\<lparr>INTERPRETER_MODE := ''Script''\<rparr>
      else if COMMAND_MODE s then s\<lparr>INTERPRETER_MODE := ''Command''\<rparr>
      else if VISION_MODE s then s\<lparr>INTERPRETER_MODE := ''Vision''\<rparr>
      else s)"

definition fence :: string where
  "fence = [CHR 0x60, CHR 0x60, CHR 0x60]"

text \<open>The two messages displayed before the loop.\<close>

definition greeting :: "'w state \<Rightarrow> string \<Rightarrow> event list" where
  "greeting s os_name =
     [Display (''OS: '' @ sq @ os_name @ sq @ '', Language: '' @ sq @ INTERPRETER_LANGUAGE s @ sq
               @ '', Mode: '' @ sq @ INTERPRETER_MODE s @ sq @ '' Model: '' @ sq
               @ str_val (INTERPRRETER_MODEL s) @ sq),
      Display (''Welcome to the **Interpreter**. I'm here to **assist** you with your everyday tasks. ''
               @ nl @ ''Please enter your task and I'll do my best to help you out.'')]"

text \<open>\<open>Interpreter.interpreter_main\<close>.\<close>

definition interpreter_main ::
  "'w env \<Rightarrow> 'w state \<Rightarrow> (unit result \<times> event list \<times> 'w state) option" where
  "interpreter_main env s0 =
     (let os_name = get_os_platform env (world s0);
          s1 = set_interpreter_mode s0;
          start_sep = (case config_values s1 ''start_sep'' of None \<Rightarrow> fence | Some v \<Rightarrow> v);
          end_sep = (case config_values s1 ''end_sep'' of None \<Rightarrow> fence | Some v \<Rightarrow> v);
          skip_first_line = (config_values s1 ''skip_first_line'' = Some ''True'')
      in Option.bind (session_loop env os_name start_sep end_sep skip_first_line s1)
           (\<lambda>(r, es, s'). Some (r, greeting s1 os_name @ es, s')))"

section \<open>Reading a run\<close>

text \<open>The three components of what a statement returns.\<close>

definition result_of :: "('w, 'a) action \<Rightarrow> 'w state \<Rightarrow> 'a result" where
  "result_of m s = fst (m s)"

definition events_of :: "('w, 'a) action \<Rightarrow> 'w state \<Rightarrow> event list" where
  "events_of m s = fst (snd (m s))"

definition state_after :: "('w, 'a) action \<Rightarrow> 'w state \<Rightarrow> 'w state" where
  "state_after m s = snd (snd (m s))"

text \<open>Kinds of events.\<close>

fun is_remove :: "event \<Rightarrow> bool" where
  "is_remove (Remove f) = True"
| "is_remove _ = False"

fun is_display :: "event \<Rightarrow> bool" where
  "is_display (Display t) = True"
| "is_display _ = False"

fun is_mode_prompt :: "event \<Rightarrow> bool" where
  "is_mode_prompt (ModePrompt t os) = True"
| "is_mode_prompt _ = False"

fun is_save_history :: "event \<Rightarrow> bool" where
  "is_save_history (SaveHistory r) = True"
| "is_save_history _ = False"

fun is_runner :: "event \<Rightarrow> bool" where
  "is_runner (RunScript c os) = True"
| "is_runner (RunCommand c) = True"
| "is_runner (RunCode c l) = True"
| "is_runner _ = False"

text \<open>What the recovery loop does: dispatching, installing, sleeping.\<close>

fun is_recovery :: "event \<Rightarrow> bool" where
  "is_recovery (Dispatch c os) = True"
| "is_recovery (Install p l) = True"
| "is_recovery (Sleep n) = True"
| "is_recovery _ = False"

text \<open>What the execution dispatcher does: the call, the confirmation, the runner.\<close>

fun is_execution :: "event \<Rightarrow> bool" where
  "is_execution (Dispatch c os) = True"
| "is_execution (Confirm a) = True"
| "is_execution e = is_runner e"

text \<open>
  What no statement of the session loop changes: the mode, the flags and the
  configuration; standard input is only consumed.
\<close>

definition unchanged :: "'w state \<Rightarrow> 'w state \<Rightarrow> bool" where
  "unchanged s s' =
     ((\<exists>ls. stdin s = ls @ stdin s') \<and>
      INTERPRETER_MODE s' = INTERPRETER_MODE s \<and>
      CODE_MODE s' = CODE_MODE s \<and> SCRIPT_MODE s' = SCRIPT_MODE s \<and>
      COMMAND_MODE s' = COMMAND_MODE s \<and> VISION_MODE s' = VISION_MODE s \<and>
      EXECUTE_CODE s' = EXECUTE_CODE s \<and> SAVE_CODE s' = SAVE_CODE s \<and>
      DISPLAY_CODE s' = DISPLAY_CODE s \<and> config_values s' = config_values s)"

text \<open>A statement all of whose events are of kind \<open>Q\<close>.\<close>

definition runs :: "(event \<Rightarrow> bool) \<Rightarrow> ('w, 'a) action \<Rightarrow> bool" where
  "runs Q m = (\<forall>s. list_all Q (events_of m s) \<and> unchanged s (state_after m s))"

section \<open>A simulated machine\<close>

text \<open>
  A small world to run the interpreter in: the files that exist, the packages that
  are installed, the environment variables and the code the runners were given, in
  the order of their runs.
\<close>

record sim =
  files :: "string list"
  installed :: "string list"
  variables :: "(string \<times> string) list"
  executed :: "string list"

text \<open>
  A Linux machine. The model answers every request with the same Python program,
  which fails with a missing module until \<open>pandas\<close> is installed; images are
  described by the vision model; every runner notes the code it is given.
\<close>

definition sim_env :: "sim env" where
  "sim_env = \<lparr>
     uname_system = (\<lambda>w. ''Linux''),
     read_system_message = (\<lambda>w. Inr ''You are a coding assistant.''),
     load_dotenv = (\<lambda>w. w),
     load_dotenv_cwd = (\<lambda>w. w),
     getenv = (\<lambda>w name. map_of (variables w) name),
     um_read_config_file = (\<lambda>w name. Inr Map.empty),
     um_extract_file_name = (\<lambda>prompt. if py_in ''cat.png'' prompt then Some ''cat.png'' else None),
     isabs = (\<lambda>path. prefix ''/'' path),
     getcwd = (\<lambda>w. ''/home/user''),
     path_join = (\<lambda>a b. a @ ''/'' @ b),
     isfile = (\<lambda>w path. path \<in> set (files w)),
     os_remove = (\<lambda>path w. (Inr (), w\<lparr>files := removeAll path (files w)\<rparr>)),
     getsize = (\<lambda>w path. Inr 1000),
     read_file_data = (\<lambda>w path. Inr ''data''),
     completion = (\<lambda>config model_id messages w. (Inr ''import pandas'', w)),
     gemini_import = (\<lambda>w. Inr ()),
     gemini_vision_url = (\<lambda>messages url w. (Inr ''A cat.'', w)),
     gemini_vision_path = (\<lambda>messages path w. (Inr ''A cat.'', w)),
     ci_extract_code = (\<lambda>code start_sep end_sep skip_first_line code_mode. Inr (Some code)),
     strftime = (\<lambda>w. ''2024_01_01-00_00_00''),
     ci_save_code = (\<lambda>path code w. (Inr (), w)),
     ci_execute_script = (\<lambda>code os_type w.
        (Inr (Some ''done'', Some []), w\<lparr>executed := executed w @ [code]\<rparr>)),
     ci_execute_command = (\<lambda>code w.
        (Inr (Some ''done'', Some []), w\<lparr>executed := executed w @ [code]\<rparr>)),
     ci_execute_code = (\<lambda>code language w.
        (if ''pandas'' \<in> set (installed w) then Inr (Some ''done'', Some [])
         else Inr (Some [], Some ''ModuleNotFoundError: No module named pandas''),
         w\<lparr>executed := executed w @ [code]\<rparr>)),
     pi_extract_package_name = (\<lambda>error_text language w. Inr (Some ''pandas'')),
     pi_install_package = (\<lambda>name language w. (Inr (), w\<lparr>installed := name # installed w\<rparr>)),
     subprocess_open = (\<lambda>path w. (Inr (), w)),
     um_save_history_json = (\<lambda>entry w. (Inr (), w))\<rparr>"

definition sim_world :: sim where
  "sim_world = \<lparr>files = [''graph.png''], installed = [],
                 variables = [(''OPENAI_API_KEY'', ''sk-0123456789''),
                              (''GEMINI_API_KEY'', ''0123456789abcdef''),
                              (''HUGGINGFACE_API_KEY'', ''hf_0123456789'')],
                 executed = []\<rparr>"

text \<open>
  The interpreter object as \<open>__init__\<close> hands it to \<open>initialize\<close>: an empty
  history and system message; the other fields are yet to be assigned.
\<close>

definition new_interpreter :: "'w \<Rightarrow> string list \<Rightarrow> 'w state" where
  "new_interpreter w lines = \<lparr>
     INTERPRETER_LANGUAGE = [], SAVE_CODE = False, EXECUTE_CODE = False, DISPLAY_CODE = False,
     INTERPRRETER_MODEL = None, INTERPRETER_MODE = [], CODE_MODE = False, SCRIPT_MODE = False,
     COMMAND_MODE = False, VISION_MODE = False, system_message = [], config_values = Map.empty,
     history = [], stdin = lines, world = w\<rparr>"

text \<open>Command lines: a model and a mode, code executed without confirmation.\<close>

definition sim_args :: "string \<Rightarrow> string \<Rightarrow> args" where
  "sim_args model_id mode_name = \<lparr>args_lang = None, args_save_code = False, args_exec = True,
     args_display_code = False, args_model = Some model_id, args_mode = Some mode_name\<rparr>"

text \<open>The interpreter after \<open>__init__\<close> on the simulated machine, if it did not raise.\<close>

definition sim_session :: "string \<Rightarrow> string \<Rightarrow> string list \<Rightarrow> sim state" where
  "sim_session model_id mode_name lines =
     state_after (initialize sim_env (sim_args model_id mode_name)) (new_interpreter sim_world lines)"

text \<open>The runner the dispatcher picks for the mode.\<close>

definition runner_events :: "string \<Rightarrow> string \<Rightarrow> 'w state \<Rightarrow> event list" where
  "runner_events code os_name s =
     (if SCRIPT_MODE s then [RunScript code os_name]
      else if COMMAND_MODE s then [RunCommand code]
      else if CODE_MODE s then [RunCode code (INTERPRETER_LANGUAGE s)]
      else [])"

text \<open>A statement that, when it does not raise, leaves a state with property \<open>P\<close>.\<close>

definition establishes :: "('w state \<Rightarrow> bool) \<Rightarrow> ('w, 'a) action \<Rightarrow> bool" where
  "establishes P m = (\<forall>s. \<not> isl (result_of m s) \<longrightarrow> P (state_after m s))"

text \<open>What can happen once the model has answered, the history entry apart.\<close>

fun is_after_model :: "event \<Rightarrow> bool" where
  "is_after_model (ReadTask t) = False"
| "is_after_model (ModePrompt t os) = False"
| "is_after_model (Remove f) = False"
| "is_after_model (GenerateText p f) = False"
| "is_after_model (SaveHistory r) = False"
| "is_after_model e = True"

subsection \<open>Two sessions\<close>

text \<open>
  The simulated world once the transient files are gone, with the packages installed
  and the code run so far; a Vision session that is asked to describe a picture, and
  a Code session that is asked for a program using \<open>pandas\<close>, with the prompts of
  the two tasks, the states the Code session goes through and the record it persists.
\<close>

definition world_at :: "string list \<Rightarrow> string list \<Rightarrow> sim" where
  "world_at packages codes = sim_world\<lparr>files := [], installed := packages, executed := codes\<rparr>"

definition vision_state :: "string list \<Rightarrow> sim state" where
  "vision_state lines = set_interpreter_mode (sim_session ''gemini-pro-vision'' ''vision'' lines)"


definition code_state :: "string list \<Rightarrow> sim state" where
  "code_state lines = set_interpreter_mode (sim_session ''code-llama'' ''code'' lines)"

definition code_state_at :: "string \<Rightarrow> (string \<times> string) list \<Rightarrow> sim \<Rightarrow> sim state" where
  "code_state_at model_id h w = (code_state [])\<lparr>INTERPRRETER_MODEL := Some model_id, history := h, world := w\<rparr>"

definition pandas_prompt :: string where
  "pandas_prompt = ''Generate the code in python language for this task '' @ sq @ ''use pandas''
      @ '' for Operating System: Linux'' @ sq @ ''.''"

definition pandas_entry :: interaction where
  "pandas_entry = \<lparr>ir_task = ''use pandas'', ir_mode = ''code'', ir_os_name = ''Linux'',
     ir_language = ''python'', ir_prompt = pandas_prompt, ir_code = ''import pandas'',
     ir_model = Some ''huggingface/code-llama''\<rparr>"

text \<open>The calls of the Execution Dispatcher.\<close>

fun is_dispatch :: "event \<Rightarrow> bool" where
  "is_dispatch (Dispatch c os) = True"
| "is_dispatch _ = False"

section \<open>Reasoning about runs\<close>

named_theorems runs_intros

lemma action_eq: "m s = (result_of m s, events_of m s, state_after m s)"
  by (simp add: result_of_def events_of_def state_after_def)

lemma ret_simps [simp]:
  "result_of (ret x) s = Inr x" "events_of (ret x) s = []" "state_after (ret x) s = s"
  by (simp_all add: result_of_def events_of_def state_after_def ret_def)

lemma throw_simps [simp]:
  "result_of (throw e) s = Inl e" "events_of (throw e) s = []" "state_after (throw e) s = s"
  by (simp_all add: result_of_def events_of_def state_after_def throw_def)

lemma get_state_simps [simp]:
  "result_of get_state s = Inr s" "events_of get_state s = []" "state_after get_state s = s"
  by (simp_all add: result_of_def events_of_def state_after_def get_state_def)

lemma emit_simps [simp]:
  "result_of (emit e) s = Inr ()" "events_of (emit e) s = [e]" "state_after (emit e) s = s"
  by (simp_all add: result_of_def events_of_def state_after_def emit_def)

lemma modify_simps [simp]:
  "result_of (modify f) s = Inr ()" "events_of (modify f) s = []" "state_after (modify f) s = f s"
  by (simp_all add: result_of_def events_of_def state_after_def modify_def)

lemma query_simps [simp]:
  "result_of (query f) s = f (world s)" "events_of (query f) s = []" "state_after (query f) s = s"
  by (simp_all add: result_of_def events_of_def state_after_def query_def)

lemma call_simps [simp]:
  "result_of (call f) s = fst (f (world s))" "events_of (call f) s = []"
  "state_after (call f) s = s\<lparr>world := snd (f (world s))\<rparr>"
  by (simp_all add: result_of_def events_of_def state_after_def call_def split: prod.split)

lemma input_line_simps [simp]:
  "events_of input_line s = []"
  "result_of input_line s = (case stdin s of [] \<Rightarrow> Inl (Exception ''EOFError'' ''EOF when reading a line'') | l # ls \<Rightarrow> Inr l)"
  "state_after input_line s = s\<lparr>stdin := tl (stdin s)\<rparr>"
  by (simp_all add: result_of_def events_of_def state_after_def input_line_def split: list.split)

lemma seq_simps:
  "result_of (seq m f) s =
     (case result_of m s of Inl e \<Rightarrow> Inl e | Inr x \<Rightarrow> result_of (f x) (state_after m s))"
  "events_of (seq m f) s =
     events_of m s @ (case result_of m s of Inl e \<Rightarrow> [] | Inr x \<Rightarrow> events_of (f x) (state_after m s))"
  "state_after (seq m f) s =
     (case result_of m s of Inl e \<Rightarrow> state_after m s | Inr x \<Rightarrow> state_after (f x) (state_after m s))"
  by (simp_all add: result_of_def events_of_def state_after_def seq_def split: prod.split sum.split)

lemma try_except_simps:
  "result_of (try_except m h) s =
     (case result_of m s of
        Inl e \<Rightarrow> if is_exception e then result_of (h e) (state_after m s) else Inl e
      | Inr x \<Rightarrow> Inr x)"
  "events_of (try_except m h) s =
     events_of m s @
       (case result_of m s of
          Inl e \<Rightarrow> if is_exception e then events_of (h e) (state_after m s) else []
        | Inr x \<Rightarrow> [])"
  "state_after (try_except m h) s =
     (case result_of m s of
        Inl e \<Rightarrow> if is_exception e then state_after (h e) (state_after m s) else state_after m s
      | Inr x \<Rightarrow> state_after m s)"
  by (simp_all add: result_of_def events_of_def state_after_def try_except_def split: prod.split sum.split)

lemma unchanged_refl [simp]: "unchanged s s"
  by (simp add: unchanged_def)

lemma unchanged_trans:
  assumes ab: "unchanged a b" and bc: "unchanged b c"
  shows "unchanged a c"
proof -
  from ab obtain ls1 where 1: "stdin a = ls1 @ stdin b"
    unfolding unchanged_def by blast
  from bc obtain ls2 where 2: "stdin b = ls2 @ stdin c"
    unfolding unchanged_def by blast
  have i: "\<exists>ls. stdin a = ls @ stdin c"
    using 1 2 by (intro exI[of _ "ls1 @ ls2"]) simp
  show ?thesis
    using ab bc i unfolding unchanged_def by simp
qed

lemma runs_weaken: "runs Q m \<Longrightarrow> (\<And>e. Q e \<Longrightarrow> Q' e) \<Longrightarrow> runs Q' m"
  unfolding runs_def by (auto simp: list_all_iff)

lemma runs_ret [runs_intros]: "runs Q (ret x)"
  by (simp add: runs_def)

lemma runs_throw [runs_intros]: "runs Q (throw e)"
  by (simp add: runs_def)

lemma runs_get_state [runs_intros]: "runs Q get_state"
  by (simp add: runs_def)

lemma runs_query [runs_intros]: "runs Q (query f)"
  by (simp add: runs_def)

lemma runs_call [runs_intros]: "runs Q (call f)"
  by (simp add: runs_def unchanged_def)

lemma runs_input_line [runs_intros]: "runs Q input_line"
  by (simp add: runs_def unchanged_def) (metis append_Nil list.collapse append_Cons tl_Nil)

lemma runs_emit [runs_intros]: "Q e \<Longrightarrow> runs Q (emit e)"
  by (simp add: runs_def)

lemma runs_seq [runs_intros]:
  assumes "runs Q m" and "\<And>x. runs Q (f x)"
  shows "runs Q (seq m f)"
  unfolding runs_def
proof (intro allI conjI)
  fix s
  show "list_all Q (events_of (seq m f) s)"
    using assms by (simp add: seq_simps runs_def split: sum.split)
  show "unchanged s (state_after (seq m f) s)"
    using assms unchanged_trans[of s "state_after m s"]
    by (simp add: seq_simps runs_def split: sum.split)
qed

lemma runs_try_except [runs_intros]:
  assumes "runs Q m" and "\<And>e. runs Q (h e)"
  shows "runs Q (try_except m h)"
  unfolding runs_def
proof (intro allI conjI)
  fix s
  show "list_all Q (events_of (try_except m h) s)"
    using assms by (simp add: try_except_simps runs_def split: sum.split)
  show "unchanged s (state_after (try_except m h) s)"
    using assms unchanged_trans[of s "state_after m s"]
    by (simp add: try_except_simps runs_def split: sum.split)
qed

lemma runs_if [runs_intros]: "(c \<Longrightarrow> runs Q a) \<Longrightarrow> (\<not> c \<Longrightarrow> runs Q b) \<Longrightarrow> runs Q (if c then a else b)"
  by simp

lemma runs_for_each [runs_intros]: "(\<And>x. runs Q (body x)) \<Longrightarrow> runs Q (for_each body xs)"
  by (induction xs) (auto intro: runs_intros)

lemma runs_set_model [runs_intros]: "runs Q (set_model m)"
  by (simp add: runs_def set_model_def unchanged_def)

lemma runs_modify_language [runs_intros]: "runs Q (modify (\<lambda>s. s\<lparr>INTERPRETER_LANGUAGE := l s\<rparr>))"
  by (simp add: runs_def unchanged_def)

lemma runs_modify_history [runs_intros]: "runs Q (modify (\<lambda>s. s\<lparr>history := l s\<rparr>))"
  by (simp add: runs_def unchanged_def)


subsection \<open>The simulated machine\<close>

lemma lower_simps [simp]: "lower [] = []" "lower (c # cs) = lower_char c # lower cs"
  by (simp_all add: lower_def)

lemma sim_world_simps [simp]:
  "files sim_world = [''graph.png'']" "installed sim_world = []" "executed sim_world = []"
  "map_of (variables sim_world) ''OPENAI_API_KEY'' = Some ''sk-0123456789''"
  "map_of (variables sim_world) ''GEMINI_API_KEY'' = Some ''0123456789abcdef''"
  "map_of (variables sim_world) ''HUGGINGFACE_API_KEY'' = Some ''hf_0123456789''"
  "map_of (variables sim_world) ''PALM_API_KEY'' = None"
  by (simp_all add: sim_world_def)

lemma load_if_missing_simps [simp]:
  "result_of (load_if_missing env name) s = Inr ()" "events_of (load_if_missing env name) s = []"
  "state_after (load_if_missing env name) s =
     s\<lparr>world := (let w1 = (if getenv env (world s) name = None then load_dotenv env (world s) else world s)
                   in if getenv env w1 name = None then load_dotenv_cwd env w1 else w1)\<rparr>"
  by (simp_all add: result_of_def events_of_def state_after_def load_if_missing_def Let_def)

lemma read_env_simps [simp]:
  "result_of (read_env env name) s = Inr (getenv env (world s) name)"
  "events_of (read_env env name) s = []" "state_after (read_env env name) s = s"
  by (simp_all add: result_of_def events_of_def state_after_def read_env_def)

lemma sim_session_gpt:
  "sim_session ''gpt-4'' mode_name lines =
     initialize_mode (sim_args ''gpt-4'' mode_name)
       ((new_interpreter sim_world lines)\<lparr>INTERPRETER_LANGUAGE := ''python'', EXECUTE_CODE := True,
          INTERPRRETER_MODEL := Some ''gpt-4'', INTERPRETER_MODE := ''code'',
          system_message := ''You are a coding assistant.''\<rparr>)"
  unfolding sim_session_def initialize_def initialize_client_def
  by (simp add: seq_simps sim_args_def sim_env_def new_interpreter_def Let_def
      validate_openai_def validate_huggingface_def validate_api_key_def model_api_keys_def)

lemma sim_initialize_ok:
  "result_of (initialize sim_env (sim_args ''gpt-4'' mode_name)) (new_interpreter sim_world lines) = Inr ()"
  unfolding initialize_def initialize_client_def
  by (simp add: seq_simps sim_args_def sim_env_def new_interpreter_def Let_def
      validate_openai_def validate_huggingface_def validate_api_key_def model_api_keys_def)

section \<open>Pure functions of the prompt\<close>

lemma py_in_sublist: "py_in w s = sublist w s"
  by (induction s) (auto simp: sublist_Cons_right)

lemma py_in_append: "py_in w s \<Longrightarrow> py_in w (s @ t)"
  unfolding py_in_sublist by (metis sublist_append)

lemma lower_append: "lower (a @ b) = lower a @ lower b"
  by (simp add: lower_def)

section \<open>Mode initialisation\<close>

text \<open>
  Claim C10. After \<open>initialize_mode\<close>, whatever the mode argument (absent, or any
  string), exactly one of the four mode flags is true; the flag is that of Script,
  Command or Vision when the argument is \<open>script\<close>, \<open>command\<close> or \<open>vision\<close>, and
  that of Code mode for every other argument.
\<close>

theorem initialize_mode_exactly_one:
  "let s' = initialize_mode a s in
     length (filter id [CODE_MODE s', SCRIPT_MODE s', COMMAND_MODE s', VISION_MODE s']) = 1 \<and>
     SCRIPT_MODE s' = (args_mode a = Some ''script'') \<and>
     COMMAND_MODE s' = (args_mode a = Some ''command'') \<and>
     VISION_MODE s' = (args_mode a = Some ''vision'') \<and>
     CODE_MODE s' = (args_mode a \<notin> {Some ''script'', Some ''command'', Some ''vision''})"
  by (auto simp: initialize_mode_def Let_def)

section \<open>Script prompt\<close>

text \<open>
  Claim C2, as amended. In Script mode, for every task and OS name, \<open>get_script_prompt\<close>
  sets the target language from the lowercased OS name: \<open>macos\<close> gives \<open>applescript\<close>,
  \<open>linux\<close> gives \<open>bash\<close>, \<open>windows\<close> gives \<open>powershell\<close>, and any other name gives
  \<open>python\<close>; the prompt embeds the script-type wording \<open>Apple script\<close>,
  \<open>Bash Shell script\<close>, \<open>Powershell script\<close>, and the generic \<open>script\<close> for any other
  name. No other field of the interpreter changes.
\<close>

theorem script_prompt_language:
  "state_after (get_script_prompt task os_name) s =
     s\<lparr>INTERPRETER_LANGUAGE :=
         (if lower os_name = ''macos'' then ''applescript''
          else if lower os_name = ''linux'' then ''bash''
          else if lower os_name = ''windows'' then ''powershell''
          else ''python'')\<rparr> \<and>
   result_of (get_script_prompt task os_name) s =
     Inr (nl @ ''Generate '' @
          (if lower os_name = ''macos'' then ''Apple script''
           else if lower os_name = ''linux'' then ''Bash Shell script''
           else if lower os_name = ''windows'' then ''Powershell script''
           else ''script'')
          @ '' for this prompt and make this script easy to read and understand for this task ''
          @ sq @ task @ '' for Operating System is '' @ os_name @ sq @ ''.'')"
  by (simp add: get_script_prompt_def seq_simps script_type_def language_map_def)

text \<open>
  On an OS name outside the three (\<open>Other\<close> is what \<open>get_os_platform\<close> yields for an
  unknown system) the target language becomes \<open>python\<close>, not a \<open>script\<close> dialect.
\<close>

theorem script_prompt_language_counterexample:
  "lower ''Other'' \<notin> {''macos'', ''linux'', ''windows''} \<and>
   INTERPRETER_LANGUAGE (state_after (get_script_prompt ''list the files'' ''Other'')
       (sim_session ''gpt-4'' ''script'' [])) = ''python'' \<and>
   INTERPRETER_LANGUAGE (state_after (get_script_prompt ''list the files'' ''Other'')
       (sim_session ''gpt-4'' ''script'' [])) \<noteq> ''script''"
  by (simp add: get_script_prompt_def seq_simps language_map_def lower_char_def)

section \<open>Keyword augmentation\<close>

lemma graph_augment_extends: "\<exists>x. graph_augment l p = p @ x"
  by (simp add: graph_augment_def)

lemma chart_augment_extends: "\<exists>x. chart_augment l p = p @ x"
  by (simp add: chart_augment_def)

lemma keyword_survives:
  assumes "py_in w (lower p)"
  shows "py_in w (lower (chart_augment l (graph_augment l p)))"
proof -
  obtain x where x: "graph_augment l p = p @ x"
    using graph_augment_extends by blast
  obtain y where y: "chart_augment l (p @ x) = (p @ x) @ y"
    using chart_augment_extends by blast
  show ?thesis
    using assms by (simp add: x y lower_append py_in_append)
qed

lemma other_language_unchanged:
  "l \<noteq> ''python'' \<Longrightarrow> l \<noteq> ''javascript'' \<Longrightarrow> augment_prompt l p = p"
  by (simp add: augment_prompt_def table_augment_def chart_augment_def graph_augment_def)

text \<open>
  Claim C5, as amended. For every prompt whose lowercased text contains \<open>table\<close>, the
  augmentation ends the prompt with the instruction to save the table to \<open>table.md\<close>
  when the target language is \<open>python\<close>, with the one for \<open>table.html\<close> when it is
  \<open>javascript\<close>, and leaves the prompt as it is for every other target language.
\<close>

theorem table_augmentation:
  assumes "py_in ''table'' (lower prompt)"
  shows "augment_prompt language prompt =
     (if language = ''python'' then
        chart_augment language (graph_augment language prompt) @ nl
        @ ''using Python use Pandas save the table in file called 'table.md'' @ sq
      else if language = ''javascript'' then
        chart_augment language (graph_augment language prompt) @ nl
        @ ''using JavaScript use DataTables save the table in file called 'table.html'' @ sq
      else prompt)"
proof (cases "language = ''python'' \<or> language = ''javascript''")
  case True
  then show ?thesis
    using keyword_survives[OF assms, of language]
    by (auto simp: augment_prompt_def table_augment_def)
next
  case False
  then show ?thesis
    using other_language_unchanged[of language prompt] by simp
qed


text \<open>A Python prompt that asks for a table.\<close>

theorem table_augmentation_witness:
  "py_in ''table'' (lower ''show a Table'') \<and>
   augment_prompt ''python'' ''show a Table'' =
     ''show a Table'' @ nl @ ''using Python use Pandas save the table in file called 'table.md'' @ sq"
  using table_augmentation[of "''show a Table''" "''python''"]
  by (simp add: chart_augment_def graph_augment_def any_in_def lower_char_def)

lemma sim_script_session:
  "sim_session ''gpt-4'' ''script'' lines =
     (new_interpreter sim_world lines)\<lparr>INTERPRETER_LANGUAGE := ''python'', EXECUTE_CODE := True,
          INTERPRRETER_MODEL := Some ''gpt-4'', INTERPRETER_MODE := ''code'',
          system_message := ''You are a coding assistant.'', SCRIPT_MODE := True\<rparr>"
  by (simp add: sim_session_gpt initialize_mode_def sim_args_def new_interpreter_def Let_def)

text \<open>
  In Script mode on Linux the target language is \<open>bash\<close>, and a prompt that asks for a
  table gets no instruction at all.
\<close>

theorem table_augmentation_counterexample:
  "py_in ''table'' (lower ''make a table'') \<and>
   augment_prompt ''bash'' ''make a table'' = ''make a table'' \<and>
   INTERPRETER_LANGUAGE (state_after (get_script_prompt ''make a table'' ''Linux'')
       (sim_session ''gpt-4'' ''script'' [])) = ''bash''"
  by (simp add: other_language_unchanged lower_char_def get_script_prompt_def seq_simps language_map_def)

text \<open>
  Claim C9, as amended. Whenever the lowercased prompt contains any of \<open>chart\<close>,
  \<open>charts\<close>, \<open>plot\<close>, \<open>plots\<close>, however many of them, the chart step appends the
  chart instruction exactly once when the target language is \<open>python\<close> or
  \<open>javascript\<close>, and appends nothing for any other target language.
\<close>

theorem chart_augmentation_once:
  assumes "any_in [''chart'', ''charts'', ''plot'', ''plots''] (lower prompt)"
  shows "chart_augment language prompt =
     (if language = ''python'' then
        prompt @ nl @ ''using Python use Plotly save the chart in file called 'chart.png'' @ sq
      else if language = ''javascript'' then
        prompt @ nl @ ''using JavaScript use Chart.js save the chart in file called 'chart.png'' @ sq
      else prompt)"
  using assms by (simp add: chart_augment_def)

text \<open>A prompt with two of the keywords gets one instruction.\<close>

theorem chart_augmentation_once_witness:
  "any_in [''chart'', ''charts'', ''plot'', ''plots''] (lower ''plot a chart'') \<and>
   chart_augment ''python'' ''plot a chart'' =
     ''plot a chart'' @ nl @ ''using Python use Plotly save the chart in file called 'chart.png'' @ sq"
  using chart_augmentation_once[of "''plot a chart''" "''python''"]
  by (simp add: any_in_def lower_char_def)

text \<open>With the target language \<open>bash\<close> of Script mode on Linux, nothing is appended.\<close>

theorem chart_augmentation_counterexample:
  "any_in [''chart'', ''charts'', ''plot'', ''plots''] (lower ''plot a chart'') \<and>
   chart_augment ''bash'' ''plot a chart'' = ''plot a chart'' \<and>
   INTERPRETER_LANGUAGE (state_after (get_script_prompt ''plot a chart'' ''Linux'')
       (sim_session ''gpt-4'' ''script'' [])) = ''bash''"
  by (simp add: chart_augment_def any_in_def lower_char_def get_script_prompt_def seq_simps language_map_def)

section \<open>The events of each step\<close>

lemma runs_get_mode_prompt: "runs is_mode_prompt (get_mode_prompt task os_name)"
  unfolding get_mode_prompt_def get_code_prompt_def get_script_prompt_def get_command_prompt_def
    handle_vision_mode_def Let_def
  by (intro runs_intros) simp_all

lemma runs_clean_responses: "runs (\<lambda>e. is_remove e \<or> is_display e) (clean_responses env)"
  unfolding clean_responses_def remove_if_file_def
  by (intro runs_intros) simp_all

lemma runs_open_resources: "runs (\<lambda>e. \<exists>f. e = OpenResource f \<or> e = Display f) (open_resources env)"
  unfolding open_resources_def open_resource_file_def
  by (intro runs_intros) auto

lemma runs_attach_file_data: "runs (\<lambda>e. False) (attach_file_data env prompt)"
  unfolding attach_file_data_def Let_def
  by (auto intro!: runs_intros split: option.split sum.split)

lemma runs_generate_text: "runs (\<lambda>e. e = GenerateText message image_file) (generate_text env message image_file)"
  unfolding generate_text_def Let_def
  by (auto intro!: runs_intros split: option.split)

lemma runs_confirm_execute: "runs is_execution confirm_execute"
  unfolding confirm_execute_def by (intro runs_intros) simp_all

lemma runs_execute_code: "runs is_execution (execute_code env c os)"
  unfolding execute_code_def
  by (intro runs_intros runs_confirm_execute) simp_all

lemma runs_show_result: "runs is_display (show_result r)"
  unfolding show_result_def by (auto intro!: runs_intros split: prod.split)

lemma runs_install_on_error:
  "runs (\<lambda>e. is_execution e \<or> is_recovery e \<or> is_display e) (install_on_error env c os err)"
  unfolding install_on_error_def
  by (auto intro!: runs_intros runs_weaken[OF runs_show_result] runs_weaken[OF runs_execute_code] split: option.split)

lemma runs_save_extracted_code: "runs (\<lambda>e. \<exists>p c. e = SaveCode p c) (save_extracted_code env c)"
  unfolding save_extracted_code_def Let_def
  by (auto intro!: runs_intros)


section \<open>Execution Dispatcher\<close>

lemma lower_y [simp]: "lower_char CHR ''y'' = CHR ''y''"
  by (simp add: lower_char_def)

lemma execute_code_events:
  "events_of (execute_code env code os_name) s =
     Dispatch code os_name #
       (if INTERPRETER_MODE s = ''Vision'' then []
        else if EXECUTE_CODE s then runner_events code os_name s
        else case stdin s of
               [] \<Rightarrow> []
             | answer # rest \<Rightarrow> Confirm answer # (if lower answer = ''y'' then runner_events code os_name s else []))"
  by (simp add: execute_code_def seq_simps try_except_simps confirm_execute_def runner_events_def
      split: list.split sum.split)

lemma execute_code_vision:
  "INTERPRETER_MODE s = ''Vision'' \<Longrightarrow> result_of (execute_code env code os_name) s = Inr (None, None)"
  "INTERPRETER_MODE s = ''Vision'' \<Longrightarrow> state_after (execute_code env code os_name) s = s"
  by (simp_all add: execute_code_def seq_simps)

lemma execute_code_declined:
  assumes "INTERPRETER_MODE s \<noteq> ''Vision''" and "\<not> EXECUTE_CODE s" and "stdin s = answer # rest"
    and "lower answer \<noteq> ''y''"
  shows "result_of (execute_code env code os_name) s = Inr (None, None)"
    and "state_after (execute_code env code os_name) s = s\<lparr>stdin := rest\<rparr>"
  using assms by (simp_all add: execute_code_def seq_simps try_except_simps confirm_execute_def)

text \<open>What the dispatcher makes of what the runner returned or raised.\<close>

lemma execute_code_automatic:
  assumes "INTERPRETER_MODE s \<noteq> ''Vision''" and "EXECUTE_CODE s"
    and "SCRIPT_MODE s \<or> COMMAND_MODE s \<or> CODE_MODE s"
  shows "result_of (execute_code env code os_name) s =
           (case fst ((if SCRIPT_MODE s then ci_execute_script env code os_name
                       else if COMMAND_MODE s then ci_execute_command env code
                       else ci_execute_code env code (INTERPRETER_LANGUAGE s)) (world s)) of
              Inl exception \<Rightarrow>
                if is_exception exception then Inr (None, Some (str_of exception)) else Inl exception
            | Inr returned \<Rightarrow> Inr returned)"
    and "state_after (execute_code env code os_name) s =
           s\<lparr>world := snd ((if SCRIPT_MODE s then ci_execute_script env code os_name
                             else if COMMAND_MODE s then ci_execute_command env code
                             else ci_execute_code env code (INTERPRETER_LANGUAGE s)) (world s))\<rparr>"
  using assms by (auto simp add: execute_code_def seq_simps try_except_simps split: sum.split)

lemma execute_code_confirmed:
  assumes "INTERPRETER_MODE s \<noteq> ''Vision''" and "\<not> EXECUTE_CODE s" and "stdin s = answer # rest"
    and "lower answer = ''y''" and "SCRIPT_MODE s \<or> COMMAND_MODE s \<or> CODE_MODE s"
  shows "result_of (execute_code env code os_name) s =
           (case fst ((if SCRIPT_MODE s then ci_execute_script env code os_name
                       else if COMMAND_MODE s then ci_execute_command env code
                       else ci_execute_code env code (INTERPRETER_LANGUAGE s)) (world s)) of
              Inl exception \<Rightarrow>
                if is_exception exception then Inr (None, Some (str_of exception)) else Inl exception
            | Inr returned \<Rightarrow> Inr returned)"
    and "state_after (execute_code env code os_name) s =
           s\<lparr>stdin := rest,
              world := snd ((if SCRIPT_MODE s then ci_execute_script env code os_name
                             else if COMMAND_MODE s then ci_execute_command env code
                             else ci_execute_code env code (INTERPRETER_LANGUAGE s)) (world s))\<rparr>"
  using assms
  by (auto simp add: execute_code_def seq_simps try_except_simps confirm_execute_def split: sum.split)

lemma prepared_modes:
  "let s = set_interpreter_mode (initialize_mode a s0) in
     (INTERPRETER_MODE s \<noteq> ''Vision'' \<longrightarrow> SCRIPT_MODE s \<or> COMMAND_MODE s \<or> CODE_MODE s)"
  by (auto simp: set_interpreter_mode_def initialize_mode_def Let_def)

lemma runner_events_filter [simp]:
  "filter is_runner (runner_events code os_name s) = runner_events code os_name s"
  by (simp add: runner_events_def)

text \<open>
  Claim C7. Take a session (a state after \<open>initialize_mode\<close> and the mode assignment
  at the head of \<open>interpreter_main\<close>) and one call of the Execution Dispatcher in it;
  let \<open>run\<close> be what the runner of the mode (\<open>execute_script\<close> with the code and
  \<open>os_name\<close> in Script mode, \<open>execute_command\<close> with the code in Command mode,
  \<open>execute_code\<close> with the code and the target language otherwise) returns and the
  world it leaves when it is applied once to the world of the call.

  \<^item> In Vision mode the call returns \<open>(None, None)\<close>, no runner is invoked and nothing
    changes: the state after the call, the world in it, is the state before.
  \<^item> Outside Vision mode with auto-execute off and an answer whose lowercase is not
    \<open>y\<close>, the call returns \<open>(None, None)\<close>, no runner is invoked and only the answer
    is consumed: the world is the one before.
  \<^item> Otherwise (not Vision, and auto-execute is on or the answer is \<open>y\<close> or \<open>Y\<close>)
    exactly one runner is invoked, the one of the mode, once: the call returns the
    pair that \<open>run\<close> returned, or \<open>(None, str(exception))\<close> when it raised inside
    \<open>Exception\<close>, or raises what it raised outside \<open>Exception\<close>; the world after
    the call is the world \<open>run\<close> left, and nothing else changes but the answer
    consumed.
\<close>

theorem dispatcher_one_runner:
  "let s = set_interpreter_mode (initialize_mode a s0);
       r = result_of (execute_code env code os_name) s;
       s' = state_after (execute_code env code os_name) s;
       runners = filter is_runner (events_of (execute_code env code os_name) s);
       run = (if SCRIPT_MODE s then ci_execute_script env code os_name
              else if COMMAND_MODE s then ci_execute_command env code
              else ci_execute_code env code (INTERPRETER_LANGUAGE s)) (world s)
   in (INTERPRETER_MODE s = ''Vision'' \<longrightarrow> r = Inr (None, None) \<and> runners = [] \<and> s' = s) \<and>
      (\<forall>answer rest. INTERPRETER_MODE s \<noteq> ''Vision'' \<and> \<not> EXECUTE_CODE s \<and>
          stdin s = answer # rest \<and> lower answer \<noteq> ''y'' \<longrightarrow>
         r = Inr (None, None) \<and> runners = [] \<and> s' = s\<lparr>stdin := rest\<rparr>) \<and>
      (INTERPRETER_MODE s \<noteq> ''Vision'' \<and>
       (EXECUTE_CODE s \<or> (\<exists>answer rest. stdin s = answer # rest \<and> lower answer = ''y'')) \<longrightarrow>
         r = (case fst run of
                Inl exception \<Rightarrow>
                  if is_exception exception then Inr (None, Some (str_of exception)) else Inl exception
              | Inr returned \<Rightarrow> Inr returned) \<and>
         s' = s\<lparr>stdin := if EXECUTE_CODE s then stdin s else tl (stdin s), world := snd run\<rparr> \<and>
         runners = [if SCRIPT_MODE s then RunScript code os_name
                    else if COMMAND_MODE s then RunCommand code
                    else RunCode code (INTERPRETER_LANGUAGE s)])"
proof -
  define s where "s = set_interpreter_mode (initialize_mode a s0)"
  define run where "run = (if SCRIPT_MODE s then ci_execute_script env code os_name
              else if COMMAND_MODE s then ci_execute_command env code
              else ci_execute_code env code (INTERPRETER_LANGUAGE s)) (world s)"
  have modes: "INTERPRETER_MODE s \<noteq> ''Vision'' \<longrightarrow> SCRIPT_MODE s \<or> COMMAND_MODE s \<or> CODE_MODE s"
    using prepared_modes[of a s0] by (simp add: s_def Let_def)
  have vision: "INTERPRETER_MODE s = ''Vision'' \<longrightarrow>
      result_of (execute_code env code os_name) s = Inr (None, None) \<and>
      filter is_runner (events_of (execute_code env code os_name) s) = [] \<and>
      state_after (execute_code env code os_name) s = s"
    by (simp add: execute_code_events execute_code_vision)
  have declined: "\<forall>answer rest. INTERPRETER_MODE s \<noteq> ''Vision'' \<and> \<not> EXECUTE_CODE s \<and>
        stdin s = answer # rest \<and> lower answer \<noteq> ''y'' \<longrightarrow>
      result_of (execute_code env code os_name) s = Inr (None, None) \<and>
      filter is_runner (events_of (execute_code env code os_name) s) = [] \<and>
      state_after (execute_code env code os_name) s = s\<lparr>stdin := rest\<rparr>"
    by (auto simp: execute_code_events execute_code_declined)
  have automatic: "INTERPRETER_MODE s \<noteq> ''Vision'' \<and> EXECUTE_CODE s \<longrightarrow>
         result_of (execute_code env code os_name) s =
           (case fst run of
              Inl exception \<Rightarrow>
                if is_exception exception then Inr (None, Some (str_of exception)) else Inl exception
            | Inr returned \<Rightarrow> Inr returned) \<and>
         state_after (execute_code env code os_name) s =
           s\<lparr>stdin := if EXECUTE_CODE s then stdin s else tl (stdin s), world := snd run\<rparr> \<and>
         filter is_runner (events_of (execute_code env code os_name) s) =
           [if SCRIPT_MODE s then RunScript code os_name
            else if COMMAND_MODE s then RunCommand code
            else RunCode code (INTERPRETER_LANGUAGE s)]"
  proof (intro impI conjI)
    assume a: "INTERPRETER_MODE s \<noteq> ''Vision'' \<and> EXECUTE_CODE s"
    with modes have m: "SCRIPT_MODE s \<or> COMMAND_MODE s \<or> CODE_MODE s" by simp
    show "result_of (execute_code env code os_name) s =
           (case fst run of
              Inl exception \<Rightarrow>
                if is_exception exception then Inr (None, Some (str_of exception)) else Inl exception
            | Inr returned \<Rightarrow> Inr returned)"
      unfolding run_def using a m by (intro execute_code_automatic(1)) simp_all
    show "state_after (execute_code env code os_name) s =
           s\<lparr>stdin := if EXECUTE_CODE s then stdin s else tl (stdin s), world := snd run\<rparr>"
      unfolding run_def using a m execute_code_automatic(2)[of s env code os_name] by simp
    show "filter is_runner (events_of (execute_code env code os_name) s) =
           [if SCRIPT_MODE s then RunScript code os_name
            else if COMMAND_MODE s then RunCommand code
            else RunCode code (INTERPRETER_LANGUAGE s)]"
      using a m by (auto simp: execute_code_events runner_events_def)
  qed
  have confirmed: "INTERPRETER_MODE s \<noteq> ''Vision'' \<and> \<not> EXECUTE_CODE s \<and>
         (\<exists>answer rest. stdin s = answer # rest \<and> lower answer = ''y'') \<longrightarrow>
         result_of (execute_code env code os_name) s =
           (case fst run of
              Inl exception \<Rightarrow>
                if is_exception exception then Inr (None, Some (str_of exception)) else Inl exception
            | Inr returned \<Rightarrow> Inr returned) \<and>
         state_after (execute_code env code os_name) s =
           s\<lparr>stdin := if EXECUTE_CODE s then stdin s else tl (stdin s), world := snd run\<rparr> \<and>
         filter is_runner (events_of (execute_code env code os_name) s) =
           [if SCRIPT_MODE s then RunScript code os_name
            else if COMMAND_MODE s then RunCommand code
            else RunCode code (INTERPRETER_LANGUAGE s)]"
  proof (intro impI conjI)
    assume a: "INTERPRETER_MODE s \<noteq> ''Vision'' \<and> \<not> EXECUTE_CODE s \<and>
         (\<exists>answer rest. stdin s = answer # rest \<and> lower answer = ''y'')"
    then obtain answer rest where st: "stdin s = answer # rest" and y: "lower answer = ''y''"
      by blast
    from a modes have m: "SCRIPT_MODE s \<or> COMMAND_MODE s \<or> CODE_MODE s" by simp
    show "result_of (execute_code env code os_name) s =
           (case fst run of
              Inl exception \<Rightarrow>
                if is_exception exception then Inr (None, Some (str_of exception)) else Inl exception
            | Inr returned \<Rightarrow> Inr returned)"
      unfolding run_def using a m st y by (intro execute_code_confirmed(1)) simp_all
    show "state_after (execute_code env code os_name) s =
           s\<lparr>stdin := if EXECUTE_CODE s then stdin s else tl (stdin s), world := snd run\<rparr>"
      unfolding run_def using a m st y execute_code_confirmed(2)[of s answer rest env code os_name]
      by simp
    show "filter is_runner (events_of (execute_code env code os_name) s) =
           [if SCRIPT_MODE s then RunScript code os_name
            else if COMMAND_MODE s then RunCommand code
            else RunCode code (INTERPRETER_LANGUAGE s)]"
      using a m st y by (auto simp: execute_code_events runner_events_def)
  qed
  show ?thesis
    using vision declined automatic confirmed unfolding Let_def s_def[symmetric] run_def[symmetric]
    by blast
qed

text \<open>
  On the simulated machine, whose command runner returns \<open>done\<close> and leaves a note in
  the world: Vision mode; Command mode with the answer \<open>no\<close>; Command mode with the
  answer \<open>Y\<close>, where the pair and the world are those of one run of the command.
\<close>

theorem dispatcher_one_runner_witness:
  "(let m = execute_code sim_env ''ls'' ''Linux'';
        s = set_interpreter_mode (initialize_mode (sim_args ''gemini-pro-vision'' ''vision'') (new_interpreter sim_world []))
    in result_of m s = Inr (None, None) \<and> filter is_runner (events_of m s) = [] \<and> state_after m s = s) \<and>
   (let m = execute_code sim_env ''ls'' ''Linux'';
        s = set_interpreter_mode (initialize_mode (sim_args ''gpt-4'' ''command'') (new_interpreter sim_world [''no'']))
    in result_of m s = Inr (None, None) \<and> filter is_runner (events_of m s) = [] \<and>
       state_after m s = s\<lparr>stdin := []\<rparr>) \<and>
   (let m = execute_code sim_env ''ls'' ''Linux'';
        s = set_interpreter_mode (initialize_mode (sim_args ''gpt-4'' ''command'') (new_interpreter sim_world [''Y'']))
    in result_of m s = Inr (Some ''done'', Some []) \<and> filter is_runner (events_of m s) = [RunCommand ''ls''] \<and>
       state_after m s = s\<lparr>stdin := [], world := sim_world\<lparr>executed := [''ls'']\<rparr>\<rparr>)"
  using dispatcher_one_runner[of "sim_args ''gemini-pro-vision'' ''vision''" "new_interpreter sim_world []" sim_env "''ls''" "''Linux''"]
    dispatcher_one_runner[of "sim_args ''gpt-4'' ''command''" "new_interpreter sim_world [''no'']" sim_env "''ls''" "''Linux''"]
    dispatcher_one_runner[of "sim_args ''gpt-4'' ''command''" "new_interpreter sim_world [''Y'']" sim_env "''ls''" "''Linux''"]
  by (simp add: Let_def set_interpreter_mode_def initialize_mode_def sim_args_def new_interpreter_def
      lower_char_def sim_env_def)

section \<open>Client initialisation\<close>

lemma validate_huggingface_ok:
  assumes "result_of (validate_huggingface env) s = Inr ()"
  shows "\<exists>k. getenv env (world (state_after (validate_huggingface env) s)) ''HUGGINGFACE_API_KEY'' = Some k
             \<and> prefix ''hf_'' k"
proof -
  define s1 where "s1 = state_after (load_if_missing env ''HUGGINGFACE_API_KEY'') s"
  have st: "state_after (validate_huggingface env) s = s1"
    by (simp add: validate_huggingface_def seq_simps s1_def)
  have "truthy (getenv env (world s1) ''HUGGINGFACE_API_KEY'') \<and>
        prefix ''hf_'' (str_val (getenv env (world s1) ''HUGGINGFACE_API_KEY''))"
    using assms by (simp add: validate_huggingface_def seq_simps s1_def split: if_splits)
  then show ?thesis
    unfolding st by (cases "getenv env (world s1) ''HUGGINGFACE_API_KEY''") auto
qed

lemma validate_model_keys_ok:
  "result_of (validate_model_keys env model_id items) s = Inr () \<Longrightarrow>
   \<exists>k. getenv env (world (state_after (validate_model_keys env model_id items) s)) ''HUGGINGFACE_API_KEY'' = Some k
       \<and> prefix ''hf_'' k"
proof (induction items arbitrary: s)
  case Nil
  then show ?case by (simp add: validate_huggingface_ok)
next
  case (Cons item items)
  obtain model api_key_name where item: "item = (model, api_key_name)"
    by (cases item)
  define m :: "('a, unit) action" where
    "m = (if py_in model model_id then validate_api_key env api_key_name else ret ())"
  have unfold: "validate_model_keys env model_id (item # items) =
      seq m (\<lambda>_. validate_model_keys env model_id items)"
    by (simp add: item m_def)
  from Cons.prems have first: "result_of m s = Inr ()"
    and rest: "result_of (validate_model_keys env model_id items) (state_after m s) = Inr ()"
    unfolding unfold by (auto simp: seq_simps split: sum.splits)
  have "state_after (validate_model_keys env model_id (item # items)) s =
      state_after (validate_model_keys env model_id items) (state_after m s)"
    unfolding unfold using first by (simp add: seq_simps)
  then show ?case
    using Cons.IH[OF rest] by simp
qed

lemma establishes_seq: "(\<And>x. establishes P (f x)) \<Longrightarrow> establishes P (seq m f)"
  unfolding establishes_def by (simp add: seq_simps split: sum.split)

lemma establishes_throw: "establishes P (throw e)"
  by (simp add: establishes_def)

lemma establishes_model_keys:
  "establishes (\<lambda>s. \<exists>k. getenv env (world s) ''HUGGINGFACE_API_KEY'' = Some k \<and> prefix ''hf_'' k)
     (validate_model_keys env model_id items)"
  unfolding establishes_def
proof (intro allI impI)
  fix s :: "'a state"
  assume "\<not> isl (result_of (validate_model_keys env model_id items) s)"
  then have "result_of (validate_model_keys env model_id items) s = Inr ()"
    by (cases "result_of (validate_model_keys env model_id items) s") auto
  then show "\<exists>k. getenv env (world (state_after (validate_model_keys env model_id items) s))
      ''HUGGINGFACE_API_KEY'' = Some k \<and> prefix ''hf_'' k"
    by (rule validate_model_keys_ok)
qed

lemma establishes_initialize_client:
  "establishes (\<lambda>s. \<exists>k. getenv env (world s) ''HUGGINGFACE_API_KEY'' = Some k \<and> prefix ''hf_'' k)
     (initialize_client env)"
  unfolding initialize_client_def Let_def
  by (auto intro!: establishes_seq establishes_throw establishes_model_keys split: option.split)

text \<open>
  Claim C6. For every model identifier (the state is arbitrary), \<open>initialize_client\<close>
  raises an exception whenever \<open>HUGGINGFACE_API_KEY\<close>, as the environment holds it once
  the \<open>.env\<close> files have been loaded, is absent or does not start with \<open>hf_\<close>: the
  \<open>else\<close> clause of the \<open>for\<close> loop runs after the provider-specific validations, so
  no model identifier gets past the Hugging Face validation.
\<close>

theorem huggingface_key_always_validated:
  "let key = getenv env (world (state_after (initialize_client env) s)) ''HUGGINGFACE_API_KEY'' in
     (key = None \<or> (\<exists>k. key = Some k \<and> \<not> prefix ''hf_'' k)) \<longrightarrow>
     isl (result_of (initialize_client env) s)"
  using establishes_initialize_client[of env]
  unfolding establishes_def Let_def by (metis option.inject option.simps(3))


text \<open>
  The model \<open>gpt-4\<close> with a valid OpenAI key and no Hugging Face key: the OpenAI
  validation passes and the Hugging Face validation raises.
\<close>

theorem huggingface_key_always_validated_witness:
  "getenv sim_env (world (state_after (initialize_client sim_env)
      ((new_interpreter (sim_world\<lparr>variables := [(''OPENAI_API_KEY'', ''sk-0123456789'')]\<rparr>) [])
         \<lparr>INTERPRRETER_MODEL := Some ''gpt-4''\<rparr>))) ''HUGGINGFACE_API_KEY'' = None \<and>
   isl (result_of (initialize_client sim_env)
      ((new_interpreter (sim_world\<lparr>variables := [(''OPENAI_API_KEY'', ''sk-0123456789'')]\<rparr>) [])
         \<lparr>INTERPRRETER_MODEL := Some ''gpt-4''\<rparr>)) \<and>
   result_of (initialize_client sim_env)
      ((new_interpreter (sim_world\<lparr>variables := [(''OPENAI_API_KEY'', ''sk-0123456789'')]\<rparr>) [])
         \<lparr>INTERPRRETER_MODEL := Some ''gpt-4''\<rparr>)
     = Inl (Exception ''Exception'' ''HuggingFace token not found in .env file.'')"
  using huggingface_key_always_validated[of sim_env
      "(new_interpreter (sim_world\<lparr>variables := [(''OPENAI_API_KEY'', ''sk-0123456789'')]\<rparr>) [])
         \<lparr>INTERPRRETER_MODEL := Some ''gpt-4''\<rparr>"]
  unfolding initialize_client_def
  by (simp add: seq_simps sim_env_def new_interpreter_def Let_def
      validate_openai_def validate_huggingface_def validate_api_key_def model_api_keys_def)

section \<open>Leaving the session loop\<close>

lemma iteration_exit:
  assumes "stdin s = task # rest" and "lower task \<in> set [''exit'', ''quit'']"
  shows "iteration env os_name start_sep end_sep skip_first_line s =
           (Inr Break, [ReadTask task], s\<lparr>stdin := rest\<rparr>)"
proof -
  have "result_of (iteration env os_name start_sep end_sep skip_first_line) s = Inr Break"
    and "events_of (iteration env os_name start_sep end_sep skip_first_line) s = [ReadTask task]"
    and "state_after (iteration env os_name start_sep end_sep skip_first_line) s = s\<lparr>stdin := rest\<rparr>"
    using assms by (simp_all add: iteration_def seq_simps)
  then show ?thesis
    using action_eq[of "iteration env os_name start_sep end_sep skip_first_line" s] by simp
qed

lemma iteration_break:
  assumes "result_of (iteration env os_name start_sep end_sep skip_first_line) s = Inr Break"
  shows "\<exists>task. events_of (iteration env os_name start_sep end_sep skip_first_line) s = [ReadTask task]
            \<and> lower task \<in> set [''exit'', ''quit'']"
proof (cases "stdin s")
  case Nil
  with assms show ?thesis
    by (simp add: iteration_def seq_simps)
next
  case (Cons task rest)
  show ?thesis
  proof (cases "lower task \<in> set [''exit'', ''quit'']")
    case True
    then show ?thesis
      using Cons iteration_exit[of s task rest env os_name start_sep end_sep skip_first_line]
      by (simp add: events_of_def)
  next
    case False
    with assms Cons show ?thesis
      by (simp add: iteration_def seq_simps split: sum.splits)
  qed
qed

lemma session_loop_normal_end:
  assumes "session_loop env os_name start_sep end_sep skip_first_line s = Some y"
  shows "fst y = Inr () \<longrightarrow>
         (\<exists>es task. fst (snd y) = es @ [ReadTask task] \<and> lower task \<in> set [''exit'', ''quit''])"
proof (rule session_loop.raw_induct[where P = "\<lambda>_ _ _ _ _ _ y. fst y = Inr () \<longrightarrow>
         (\<exists>es task. fst (snd y) = es @ [ReadTask task] \<and> lower task \<in> set [''exit'', ''quit''])",
       OF _ assms], goal_cases)
  case (1 loop env os_name start_sep end_sep skip_first_line s y)
  define it where "it = iteration env os_name start_sep end_sep skip_first_line"
  show ?case
  proof (cases "result_of it s = Inr Continue")
    case True
    with 1(2) obtain y' where inner: "loop env os_name start_sep end_sep skip_first_line (state_after it s) = Some y'"
      and y: "y = (fst y', events_of it s @ fst (snd y'), snd (snd y'))"
      by (auto simp: it_def action_eq[of "iteration env os_name start_sep end_sep skip_first_line" s]
          Option.bind_eq_Some_conv split: prod.splits)
    from 1(1)[OF inner] show ?thesis
      by (auto simp: y)
  next
    case False
    with 1(2) have y: "y = (map_sum id (\<lambda>_. ()) (result_of it s), events_of it s, state_after it s)"
      by (auto simp: it_def result_of_def events_of_def state_after_def split: prod.splits)
    show ?thesis
    proof
      assume "fst y = Inr ()"
      then have "result_of it s = Inr Break"
        using False unfolding y
        by (cases "result_of it s") (auto intro: loop_signal.exhaust)
      then show "\<exists>es task. fst (snd y) = es @ [ReadTask task] \<and> lower task \<in> set [''exit'', ''quit'']"
        using iteration_break[of env os_name start_sep end_sep skip_first_line s]
        unfolding it_def[symmetric] y by auto
    qed
  qed
qed


lemma iteration_break_iff:
  "(result_of (iteration env os_name start_sep end_sep skip_first_line) s = Inr Break) =
   (\<exists>task rest. stdin s = task # rest \<and> lower task \<in> set [''exit'', ''quit''])"
proof (cases "stdin s")
  case Nil
  then show ?thesis by (simp add: iteration_def seq_simps)
next
  case (Cons task rest)
  show ?thesis
  proof (cases "lower task \<in> set [''exit'', ''quit'']")
    case True
    then show ?thesis
      using Cons iteration_exit[of s task rest env os_name start_sep end_sep skip_first_line]
      by (simp add: result_of_def)
  next
    case False
    with Cons show ?thesis
      by (simp add: iteration_def seq_simps split: sum.splits)
  qed
qed

text \<open>
  Claim C8. When the task read lowercases to \<open>exit\<close> or \<open>quit\<close>, the session loop
  returns normally at once: its only event is the reading of that task, so no
  interaction record is written for it. Conversely a session loop that returns
  normally has just read such a task, and an iteration leaves the loop exactly when
  the line it reads is one.
\<close>

theorem exit_ends_the_session:
  "(\<forall>task rest. stdin s = task # rest \<and> lower task \<in> set [''exit'', ''quit''] \<longrightarrow>
      session_loop env os_name start_sep end_sep skip_first_line s =
        Some (Inr (), [ReadTask task], s\<lparr>stdin := rest\<rparr>)) \<and>
   (\<forall>es s'. session_loop env os_name start_sep end_sep skip_first_line s = Some (Inr (), es, s') \<longrightarrow>
      (\<exists>es0 task. es = es0 @ [ReadTask task] \<and> lower task \<in> set [''exit'', ''quit''])) \<and>
   ((result_of (iteration env os_name start_sep end_sep skip_first_line) s = Inr Break) =
      (\<exists>task rest. stdin s = task # rest \<and> lower task \<in> set [''exit'', ''quit'']))"
proof (intro conjI allI impI)
  fix task rest
  assume "stdin s = task # rest \<and> lower task \<in> set [''exit'', ''quit'']"
  then have "iteration env os_name start_sep end_sep skip_first_line s =
      (Inr Break, [ReadTask task], s\<lparr>stdin := rest\<rparr>)"
    using iteration_exit by blast
  then show "session_loop env os_name start_sep end_sep skip_first_line s =
      Some (Inr (), [ReadTask task], s\<lparr>stdin := rest\<rparr>)"
    by (subst session_loop.simps) simp
next
  fix es s'
  assume "session_loop env os_name start_sep end_sep skip_first_line s = Some (Inr (), es, s')"
  from session_loop_normal_end[OF this]
  show "\<exists>es0 task. es = es0 @ [ReadTask task] \<and> lower task \<in> set [''exit'', ''quit'']"
    by simp
next
  show "(result_of (iteration env os_name start_sep end_sep skip_first_line) s = Inr Break) =
      (\<exists>task rest. stdin s = task # rest \<and> lower task \<in> set [''exit'', ''quit''])"
    by (rule iteration_break_iff)
qed

text \<open>A session whose first line is \<open>EXIT\<close>.\<close>

theorem exit_ends_the_session_witness:
  "lower ''EXIT'' \<in> set [''exit'', ''quit''] \<and>
   session_loop sim_env ''Linux'' fence fence False (new_interpreter sim_world [''EXIT'']) =
     Some (Inr (), [ReadTask ''EXIT''], new_interpreter sim_world [])"
  using exit_ends_the_session[of "new_interpreter sim_world [''EXIT'']" sim_env "''Linux''" fence fence False]
  by (simp add: new_interpreter_def lower_char_def)

section \<open>The interaction record\<close>

lemma runs_events: "runs Q m \<Longrightarrow> list_all Q (events_of m s)"
  by (simp add: runs_def)

lemma runs_filter: "runs Q m \<Longrightarrow> (\<And>e. Q e \<Longrightarrow> \<not> P e) \<Longrightarrow> filter P (events_of m s) = []"
  unfolding runs_def by (auto simp: list_all_iff filter_empty_conv)

lemma runs_unchanged: "runs Q m \<Longrightarrow> unchanged s (state_after m s)"
  by (simp add: runs_def)


lemma runs_build_prompt:
  "runs (\<lambda>e. is_mode_prompt e \<or> is_remove e \<or> is_display e) (build_prompt env task os_name)"
  unfolding build_prompt_def
  by (auto intro!: runs_intros runs_weaken[OF runs_get_mode_prompt] runs_weaken[OF runs_clean_responses]
        runs_weaken[OF runs_attach_file_data] split: option.split prod.split)

lemma runs_run_extracted_code: "runs is_after_model (run_extracted_code env code os_name)"
  unfolding run_extracted_code_def
  by (intro runs_intros runs_weaken[OF runs_save_extracted_code] runs_weaken[OF runs_execute_code]
        runs_weaken[OF runs_show_result] runs_weaken[OF runs_install_on_error]
        runs_weaken[OF runs_open_resources])
     (auto elim: is_execution.elims is_recovery.elims is_display.elims is_runner.elims)


lemma save_history_events:
  "events_of (save_history env task os_name prompt code) s =
     [SaveHistory \<lparr>ir_task = task, ir_mode = INTERPRETER_MODE s, ir_os_name = os_name,
        ir_language = INTERPRETER_LANGUAGE s, ir_prompt = prompt, ir_code = code,
        ir_model = INTERPRRETER_MODEL s\<rparr>]"
  by (simp add: save_history_def seq_simps Let_def)


lemma no_save_in_run [simp]:
  "filter is_save_history (events_of (run_extracted_code env code os_name) s) = []"
  by (rule runs_filter[OF runs_run_extracted_code]) (auto elim: is_save_history.elims)

section \<open>Two sessions on the simulated machine\<close>

lemma sim_env_simps [simp]:
  "uname_system sim_env w = ''Linux''"
  "um_extract_file_name sim_env prompt = (if py_in ''cat.png'' prompt then Some ''cat.png'' else None)"
  "isabs sim_env path = prefix ''/'' path"
  "getcwd sim_env w = ''/home/user''"
  "path_join sim_env a b = a @ ''/'' @ b"
  "isfile sim_env w path = (path \<in> set (files w))"
  "os_remove sim_env path w = (Inr (), w\<lparr>files := removeAll path (files w)\<rparr>)"
  "getsize sim_env w path = Inr 1000"
  "read_file_data sim_env w path = Inr ''data''"
  "completion sim_env config model_id messages w = (Inr ''import pandas'', w)"
  "gemini_import sim_env w = Inr ()"
  "gemini_vision_url sim_env messages url w = (Inr ''A cat.'', w)"
  "gemini_vision_path sim_env messages path w = (Inr ''A cat.'', w)"
  "ci_extract_code sim_env code start_sep end_sep skip_first_line code_mode = Inr (Some code)"
  "strftime sim_env w = ''2024_01_01-00_00_00''"
  "ci_save_code sim_env path code w = (Inr (), w)"
  "ci_execute_script sim_env code os_type w = (Inr (Some ''done'', Some []), w\<lparr>executed := executed w @ [code]\<rparr>)"
  "ci_execute_command sim_env code w = (Inr (Some ''done'', Some []), w\<lparr>executed := executed w @ [code]\<rparr>)"
  "ci_execute_code sim_env code language w =
     (if ''pandas'' \<in> set (installed w) then Inr (Some ''done'', Some [])
      else Inr (Some [], Some ''ModuleNotFoundError: No module named pandas''),
      w\<lparr>executed := executed w @ [code]\<rparr>)"
  "pi_extract_package_name sim_env error_text language w = Inr (Some ''pandas'')"
  "pi_install_package sim_env name language w = (Inr (), w\<lparr>installed := name # installed w\<rparr>)"
  "subprocess_open sim_env path w = (Inr (), w)"
  "um_save_history_json sim_env entry w = (Inr (), w)"
  by (simp_all add: sim_env_def)

lemma world_at_simps [simp]:
  "files (world_at packages codes) = []" "installed (world_at packages codes) = packages"
  "executed (world_at packages codes) = codes"
  "(world_at packages codes)\<lparr>installed := packages'\<rparr> = world_at packages' codes"
  "(world_at packages codes)\<lparr>executed := codes'\<rparr> = world_at packages codes'"
  "sim_world\<lparr>files := []\<rparr> = world_at [] []"
  by (simp_all add: world_at_def sim_world_def)

subsection \<open>A picture described in Vision mode\<close>

lemma sim_session_gemini:
  "sim_session ''gemini-pro-vision'' ''vision'' lines =
     (new_interpreter sim_world lines)\<lparr>INTERPRETER_LANGUAGE := ''python'', EXECUTE_CODE := True,
          INTERPRRETER_MODEL := Some ''gemini-pro-vision'', INTERPRETER_MODE := ''code'',
          system_message := ''You are a coding assistant.'', VISION_MODE := True\<rparr>"
  unfolding sim_session_def initialize_def initialize_client_def
  by (simp add: seq_simps sim_args_def sim_env_def new_interpreter_def Let_def initialize_mode_def
      validate_openai_def validate_huggingface_def validate_api_key_def model_api_keys_def)

lemma vision_state_eq:
  "vision_state lines = \<lparr>
     INTERPRETER_LANGUAGE = ''python'', SAVE_CODE = False, EXECUTE_CODE = True, DISPLAY_CODE = False,
     INTERPRRETER_MODEL = Some ''gemini-pro-vision'', INTERPRETER_MODE = ''Vision'', CODE_MODE = False,
     SCRIPT_MODE = False, COMMAND_MODE = False, VISION_MODE = True,
     system_message = ''You are a coding assistant.'', config_values = Map.empty,
     history = [], stdin = lines, world = sim_world\<rparr>"
  by (simp add: vision_state_def sim_session_gemini set_interpreter_mode_def new_interpreter_def)

lemma vision_state_fields [simp]:
  "INTERPRETER_LANGUAGE (vision_state lines) = ''python''" "SAVE_CODE (vision_state lines) = False"
  "EXECUTE_CODE (vision_state lines) = True" "DISPLAY_CODE (vision_state lines) = False"
  "INTERPRRETER_MODEL (vision_state lines) = Some ''gemini-pro-vision''"
  "INTERPRETER_MODE (vision_state lines) = ''Vision''" "CODE_MODE (vision_state lines) = False"
  "SCRIPT_MODE (vision_state lines) = False" "COMMAND_MODE (vision_state lines) = False"
  "VISION_MODE (vision_state lines) = True" "config_values (vision_state lines) = Map.empty"
  "history (vision_state lines) = []" "stdin (vision_state lines) = lines"
  "world (vision_state lines) = sim_world"
  "(vision_state (task # lines))\<lparr>stdin := lines\<rparr> = vision_state lines"
  by (simp_all add: vision_state_eq)








subsection \<open>A program that needs a package, in Code mode\<close>

lemma sim_session_llama:
  "sim_session ''code-llama'' ''code'' lines =
     (new_interpreter sim_world lines)\<lparr>INTERPRETER_LANGUAGE := ''python'', EXECUTE_CODE := True,
          INTERPRRETER_MODEL := Some ''code-llama'', INTERPRETER_MODE := ''code'',
          system_message := ''You are a coding assistant.'', CODE_MODE := True\<rparr>"
  unfolding sim_session_def initialize_def initialize_client_def
  by (simp add: seq_simps sim_args_def sim_env_def new_interpreter_def Let_def initialize_mode_def
      validate_openai_def validate_huggingface_def validate_api_key_def model_api_keys_def)

lemma code_state_eq:
  "code_state lines = \<lparr>
     INTERPRETER_LANGUAGE = ''python'', SAVE_CODE = False, EXECUTE_CODE = True, DISPLAY_CODE = False,
     INTERPRRETER_MODEL = Some ''code-llama'', INTERPRETER_MODE = ''code'', CODE_MODE = True,
     SCRIPT_MODE = False, COMMAND_MODE = False, VISION_MODE = False,
     system_message = ''You are a coding assistant.'', config_values = Map.empty,
     history = [], stdin = lines, world = sim_world\<rparr>"
  by (simp add: code_state_def sim_session_llama set_interpreter_mode_def new_interpreter_def)

lemma code_state_at_fields [simp]:
  "INTERPRETER_LANGUAGE (code_state_at m h w) = ''python''" "SAVE_CODE (code_state_at m h w) = False"
  "EXECUTE_CODE (code_state_at m h w) = True" "DISPLAY_CODE (code_state_at m h w) = False"
  "INTERPRRETER_MODEL (code_state_at m h w) = Some m"
  "INTERPRETER_MODE (code_state_at m h w) = ''code''" "CODE_MODE (code_state_at m h w) = True"
  "SCRIPT_MODE (code_state_at m h w) = False" "COMMAND_MODE (code_state_at m h w) = False"
  "VISION_MODE (code_state_at m h w) = False" "config_values (code_state_at m h w) = Map.empty"
  "history (code_state_at m h w) = h" "stdin (code_state_at m h w) = []"
  "world (code_state_at m h w) = w"
  "(code_state_at m h w)\<lparr>world := w'\<rparr> = code_state_at m h w'"
  "(code_state_at m h w)\<lparr>history := h'\<rparr> = code_state_at m h' w"
  "(code_state_at m h w)\<lparr>INTERPRRETER_MODEL := Some m'\<rparr> = code_state_at m' h w"
  by (simp_all add: code_state_at_def code_state_eq)

lemma code_state_stdin [simp]: "stdin (code_state lines) = lines"
  by (simp add: code_state_eq)


lemma code_start [simp]: "(code_state [task])\<lparr>stdin := []\<rparr> = code_state_at ''code-llama'' [] sim_world"
  by (simp add: code_state_at_def code_state_eq)

lemma code_mode_prompt:
  "get_mode_prompt ''use pandas'' ''Linux'' (code_state_at m [] w) =
     (Inr (Some pandas_prompt), [ModePrompt ''use pandas'' ''Linux''],
      code_state_at m [(''use pandas'', pandas_prompt)] w)"
  by (simp add: pandas_prompt_def get_mode_prompt_def get_code_prompt_def seq_def emit_def
      get_state_def ret_def modify_def Let_def)

lemma code_clean:
  "clean_responses sim_env (code_state_at m h sim_world) =
     (Inr (), [Remove ''graph.png''], code_state_at m h (world_at [] []))"
  by (simp add: clean_responses_def files_to_remove_def remove_if_file_def
      seq_def emit_def get_state_def ret_def try_except_def call_def)

lemma pandas_prompt_plain:
  "augment_prompt ''python'' pandas_prompt = pandas_prompt"
  "um_extract_file_name sim_env pandas_prompt = None"
  by code_simp+

lemma code_build:
  "build_prompt sim_env ''use pandas'' ''Linux'' (code_state_at m [] sim_world) =
   (Inr (None, pandas_prompt), [ModePrompt ''use pandas'' ''Linux'', Remove ''graph.png''],
    code_state_at m [(''use pandas'', pandas_prompt)] (world_at [] []))"
  unfolding build_prompt_def attach_file_data_def
  by (simp add: seq_def code_mode_prompt code_clean get_state_def ret_def pandas_prompt_plain
      del: sim_env_simps(2))

lemma code_generate:
  "generate_text sim_env pandas_prompt None (code_state_at ''code-llama'' h w) =
   (Inr ''import pandas'', [GenerateText pandas_prompt None], code_state_at ''huggingface/code-llama'' h w)"
  unfolding generate_text_def
  by (simp add: seq_def emit_def get_state_def call_def set_model_def modify_def Let_def)

lemma code_first_attempt:
  "execute_code sim_env ''import pandas'' ''Linux'' (code_state_at m h (world_at [] [])) =
   (Inr (Some [], Some ''ModuleNotFoundError: No module named pandas''),
    [Dispatch ''import pandas'' ''Linux'', RunCode ''import pandas'' ''python''],
    code_state_at m h (world_at [] [''import pandas'']))"
  unfolding execute_code_def
  by (simp add: seq_def emit_def get_state_def ret_def call_def try_except_def)

lemma code_second_attempt:
  "execute_code sim_env ''import pandas'' ''Linux'' (code_state_at m h (world_at [''pandas''] [''import pandas''])) =
   (Inr (Some ''done'', Some []),
    [Dispatch ''import pandas'' ''Linux'', RunCode ''import pandas'' ''python''],
    code_state_at m h (world_at [''pandas''] [''import pandas'', ''import pandas'']))"
  unfolding execute_code_def
  by (simp add: seq_def emit_def get_state_def ret_def call_def try_except_def)

lemma missing_module_matches:
  "any_in error_messages ''ModuleNotFoundError: No module named pandas''"
  by code_simp

lemma code_recovery:
  "install_on_error sim_env ''import pandas'' ''Linux'' (Some ''ModuleNotFoundError: No module named pandas'')
     (code_state_at m h (world_at [] [''import pandas''])) =
   (Inr (),
    [Install ''pandas'' ''python'', Sleep 10, Dispatch ''import pandas'' ''Linux'',
     RunCode ''import pandas'' ''python'', Display ''done''],
    code_state_at m h (world_at [''pandas''] [''import pandas'', ''import pandas'']))"
  unfolding install_on_error_def
  by (simp add: missing_module_matches seq_def emit_def get_state_def ret_def call_def query_def
      code_second_attempt show_result_def)

lemma code_open:
  "open_resources sim_env (code_state_at m h (world_at packages codes)) =
   (Inr (), [], code_state_at m h (world_at packages codes))"
  by (simp add: open_resources_def open_resource_file_def files_to_remove_def seq_def get_state_def ret_def)

lemma code_run_extracted:
  "run_extracted_code sim_env ''import pandas'' ''Linux'' (code_state_at m h (world_at [] [])) =
   (Inr (),
    [Dispatch ''import pandas'' ''Linux'', RunCode ''import pandas'' ''python'',
     Display ''Error: ModuleNotFoundError: No module named pandas'',
     Install ''pandas'' ''python'', Sleep 10, Dispatch ''import pandas'' ''Linux'',
     RunCode ''import pandas'' ''python'', Display ''done''],
    code_state_at m h (world_at [''pandas''] [''import pandas'', ''import pandas'']))"
  unfolding run_extracted_code_def save_extracted_code_def
  by (simp add: seq_def get_state_def ret_def emit_def code_first_attempt show_result_def
      code_recovery code_open Let_def)

lemma code_handle_output:
  "handle_output sim_env ''use pandas'' ''Linux'' fence fence False pandas_prompt ''import pandas''
     (code_state_at ''huggingface/code-llama'' h (world_at [] [])) =
   (Inr (),
    [Dispatch ''import pandas'' ''Linux'', RunCode ''import pandas'' ''python'',
     Display ''Error: ModuleNotFoundError: No module named pandas'',
     Install ''pandas'' ''python'', Sleep 10, Dispatch ''import pandas'' ''Linux'',
     RunCode ''import pandas'' ''python'', Display ''done'', SaveHistory pandas_entry],
    code_state_at ''huggingface/code-llama'' h (world_at [''pandas''] [''import pandas'', ''import pandas'']))"
  unfolding handle_output_def save_history_def
  by (simp add: seq_def get_state_def query_def ret_def emit_def call_def code_run_extracted
      pandas_entry_def Let_def)

lemma code_run:
  "iteration sim_env ''Linux'' fence fence False (code_state [''use pandas'']) =
   (Inr Continue,
    [ReadTask ''use pandas'', ModePrompt ''use pandas'' ''Linux'', Remove ''graph.png'',
     GenerateText pandas_prompt None,
     Dispatch ''import pandas'' ''Linux'', RunCode ''import pandas'' ''python'',
     Display ''Error: ModuleNotFoundError: No module named pandas'',
     Install ''pandas'' ''python'', Sleep 10, Dispatch ''import pandas'' ''Linux'',
     RunCode ''import pandas'' ''python'', Display ''done'', SaveHistory pandas_entry],
    code_state_at ''huggingface/code-llama'' [(''use pandas'', pandas_prompt)]
      (world_at [''pandas''] [''import pandas'', ''import pandas'']))"
  unfolding iteration_def handle_task_def
  by (simp add: seq_def input_line_def emit_def get_state_def ret_def
      code_build code_generate code_handle_output lower_char_def)

section \<open>One record for each iteration\<close>









lemma no_save_in_build [simp]:
  "filter is_save_history (events_of (build_prompt env task os_name) s) = []"
  by (rule runs_filter[OF runs_build_prompt]) (auto elim: is_save_history.elims)

lemma no_save_in_generate [simp]:
  "filter is_save_history (events_of (generate_text env prompt name) s) = []"
  by (rule runs_filter[OF runs_generate_text]) auto






section \<open>Recovery Loop\<close>

lemma filter_seq:
  "filter P (events_of (seq m f) s) =
     filter P (events_of m s) @
       (case result_of m s of Inl e \<Rightarrow> [] | Inr x \<Rightarrow> filter P (events_of (f x) (state_after m s)))"
  by (simp add: seq_simps split: sum.split)

lemma recovery_in_execute_code [simp]:
  "filter is_recovery (events_of (execute_code env code os_name) s) = [Dispatch code os_name]"
  by (simp add: execute_code_events runner_events_def split: list.split)

lemma show_result_simps [simp]:
  "result_of (show_result r) s = Inr ()" "state_after (show_result r) s = s"
  "filter is_recovery (events_of (show_result r) s) = []"
  by (simp_all add: show_result_def split: prod.split)

lemma recovery_in_open_resources [simp]:
  "filter is_recovery (events_of (open_resources env) s) = []"
  by (rule runs_filter[OF runs_open_resources]) auto

lemma recovery_in_save_extracted_code [simp]:
  "filter is_recovery (events_of (save_extracted_code env code) s) = []"
  by (rule runs_filter[OF runs_save_extracted_code]) auto

lemma recovery_in_save_history [simp]:
  "filter is_recovery (events_of (save_history env task os_name prompt code) s) = []"
  by (simp add: save_history_events)

lemma recovery_in_build [simp]:
  "filter is_recovery (events_of (build_prompt env task os_name) s) = []"
  by (rule runs_filter[OF runs_build_prompt])
     (auto elim: is_mode_prompt.elims is_remove.elims is_display.elims)

lemma recovery_in_generate [simp]:
  "filter is_recovery (events_of (generate_text env prompt name) s) = []"
  by (rule runs_filter[OF runs_generate_text]) auto

text \<open>The recovery once the installer has been reached.\<close>

lemma install_on_error_installs:
  assumes "any_in error_messages err"
    and "pi_extract_package_name env err (INTERPRETER_LANGUAGE s) (world s) = Inr (Some pkg)"
    and "pkg \<noteq> []"
  shows "install_on_error env code os_name (Some err) s =
     (case pi_install_package env pkg (INTERPRETER_LANGUAGE s) (world s) of
        (Inl e, w) \<Rightarrow> (Inl e, [Install pkg (INTERPRETER_LANGUAGE s)], s\<lparr>world := w\<rparr>)
      | (Inr u, w) \<Rightarrow>
          (case seq (execute_code env code os_name) show_result (s\<lparr>world := w\<rparr>) of
             (r, es, s') \<Rightarrow> (r, Install pkg (INTERPRETER_LANGUAGE s) # Sleep 10 # es, s')))"
  using assms
  by (simp add: install_on_error_def seq_def get_state_def query_def emit_def call_def
      split: prod.split sum.split)

lemma recovery_in_install_on_error:
  "filter is_recovery (events_of (install_on_error env code os_name err) s) = [] \<or>
   (\<exists>p l. filter is_recovery (events_of (install_on_error env code os_name err) s) = [Install p l]) \<or>
   (\<exists>p l. filter is_recovery (events_of (install_on_error env code os_name err) s) =
      [Install p l, Sleep 10, Dispatch code os_name])"
proof (cases err)
  case None
  then show ?thesis by (simp add: install_on_error_def)
next
  case (Some error_text)
  show ?thesis
  proof (cases "any_in error_messages error_text")
    case False
    with Some show ?thesis by (simp add: install_on_error_def)
  next
    case True
    show ?thesis
    proof (cases "pi_extract_package_name env error_text (INTERPRETER_LANGUAGE s) (world s)")
      case (Inl e)
      with Some True show ?thesis by (simp add: install_on_error_def seq_simps)
    next
      case (Inr package_name)
      show ?thesis
      proof (cases "truthy package_name")
        case False
        with Some True Inr show ?thesis by (simp add: install_on_error_def seq_simps)
      next
        case truthy: True
        show ?thesis
        proof (cases "fst (pi_install_package env (str_val package_name) (INTERPRETER_LANGUAGE s) (world s))")
          case (Inl e)
          with Some True Inr truthy show ?thesis
            by (simp add: install_on_error_def seq_simps)
        next
          case installed: (Inr u)
          with Some True Inr truthy show ?thesis
            by (simp add: install_on_error_def seq_simps filter_seq split: sum.split)
        qed
      qed
    qed
  qed
qed

lemma recovery_in_run_extracted_code:
  "filter is_recovery (events_of (run_extracted_code env code os_name) s) =
     (case result_of (save_extracted_code env code) s of
        Inl e \<Rightarrow> []
      | Inr u \<Rightarrow>
          Dispatch code os_name #
            (case result_of (execute_code env code os_name) (state_after (save_extracted_code env code) s) of
               Inl e \<Rightarrow> []
             | Inr first \<Rightarrow>
                 filter is_recovery
                   (events_of (install_on_error env code os_name (snd first))
                      (state_after (execute_code env code os_name)
                         (state_after (save_extracted_code env code) s)))))"
  by (simp add: run_extracted_code_def filter_seq seq_simps split: sum.split)

lemma recovery_shape_run_extracted_code:
  "filter is_recovery (events_of (run_extracted_code env code os_name) s) = [] \<or>
   filter is_recovery (events_of (run_extracted_code env code os_name) s) = [Dispatch code os_name] \<or>
   (\<exists>p l. filter is_recovery (events_of (run_extracted_code env code os_name) s) =
      [Dispatch code os_name, Install p l]) \<or>
   (\<exists>p l. filter is_recovery (events_of (run_extracted_code env code os_name) s) =
      [Dispatch code os_name, Install p l, Sleep 10, Dispatch code os_name])"
proof (cases "result_of (save_extracted_code env code) s")
  case (Inl e)
  then show ?thesis by (simp add: recovery_in_run_extracted_code)
next
  case saved: (Inr u)
  show ?thesis
  proof (cases "result_of (execute_code env code os_name) (state_after (save_extracted_code env code) s)")
    case (Inl e)
    with saved show ?thesis by (simp add: recovery_in_run_extracted_code)
  next
    case (Inr first)
    from recovery_in_install_on_error[of env code os_name "snd first"
        "state_after (execute_code env code os_name) (state_after (save_extracted_code env code) s)"]
    show ?thesis
      unfolding recovery_in_run_extracted_code saved Inr by auto
  qed
qed

lemma recovery_in_handle_output:
  "filter is_recovery (events_of (handle_output env task os_name start_sep end_sep skip_first_line prompt output) s) = [] \<or>
   (\<exists>code s'. filter is_recovery
       (events_of (handle_output env task os_name start_sep end_sep skip_first_line prompt output) s) =
      filter is_recovery (events_of (run_extracted_code env code os_name) s'))"
proof (cases "ci_extract_code env output start_sep end_sep skip_first_line (CODE_MODE s)")
  case (Inl e)
  then show ?thesis by (simp add: handle_output_def seq_simps)
next
  case (Inr extracted)
  show ?thesis
  proof (cases extracted)
    case None
    with Inr show ?thesis by (simp add: handle_output_def seq_simps)
  next
    case (Some code)
    show ?thesis
    proof (cases "code = []")
      case True
      with Inr Some show ?thesis by (simp add: handle_output_def seq_simps filter_seq split: sum.split)
    next
      case False
      have "filter is_recovery
          (events_of (handle_output env task os_name start_sep end_sep skip_first_line prompt output) s) =
        filter is_recovery (events_of (run_extracted_code env code os_name) s)"
        using Inr Some False
        by (simp add: handle_output_def seq_simps filter_seq split: sum.split)
      then show ?thesis by blast
    qed
  qed
qed

lemma recovery_in_handle_task:
  "filter is_recovery (events_of (handle_task env os_name start_sep end_sep skip_first_line task) s) = [] \<or>
   (\<exists>code s'. filter is_recovery
       (events_of (handle_task env os_name start_sep end_sep skip_first_line task) s) =
      filter is_recovery (events_of (run_extracted_code env code os_name) s'))"
proof (cases "result_of (build_prompt env task os_name) s")
  case (Inl e)
  then show ?thesis by (simp add: handle_task_def filter_seq)
next
  case (Inr built)
  obtain name prompt where built: "built = (name, prompt)" by (cases built)
  show ?thesis
  proof (cases "result_of (generate_text env prompt name) (state_after (build_prompt env task os_name) s)")
    case (Inl e)
    with Inr built show ?thesis by (simp add: handle_task_def filter_seq)
  next
    case generated: (Inr answer)
    define s2 where "s2 = state_after (generate_text env prompt name) (state_after (build_prompt env task os_name) s)"
    have ev: "filter is_recovery (events_of (handle_task env os_name start_sep end_sep skip_first_line task) s) =
       (if INTERPRETER_MODE s2 = ''Vision'' then []
        else filter is_recovery
          (events_of (handle_output env task os_name start_sep end_sep skip_first_line prompt answer) s2))"
      using Inr built generated by (simp add: handle_task_def filter_seq s2_def)
    from recovery_in_handle_output[of env task os_name start_sep end_sep skip_first_line prompt answer s2]
    show ?thesis unfolding ev by auto
  qed
qed

lemma recovery_in_iteration:
  "filter is_recovery (events_of (iteration env os_name start_sep end_sep skip_first_line) s) = [] \<or>
   (\<exists>code s'. filter is_recovery
       (events_of (iteration env os_name start_sep end_sep skip_first_line) s) =
      filter is_recovery (events_of (run_extracted_code env code os_name) s'))"
proof (cases "stdin s")
  case Nil
  then show ?thesis by (simp add: iteration_def filter_seq)
next
  case (Cons task rest)
  show ?thesis
  proof (cases "lower task \<in> set [''exit'', ''quit'']")
    case True
    with Cons show ?thesis by (simp add: iteration_def filter_seq)
  next
    case False
    have ev: "filter is_recovery (events_of (iteration env os_name start_sep end_sep skip_first_line) s) =
        filter is_recovery
          (events_of (handle_task env os_name start_sep end_sep skip_first_line task) (s\<lparr>stdin := rest\<rparr>))"
      using Cons False by (simp add: iteration_def filter_seq split: sum.split)
    from recovery_in_handle_task[of env os_name start_sep end_sep skip_first_line task "s\<lparr>stdin := rest\<rparr>"]
    show ?thesis unfolding ev by auto
  qed
qed

lemma dispatch_is_recovery: "filter is_dispatch es = filter is_dispatch (filter is_recovery es)"
  by (induction es) (auto elim: is_dispatch.elims)


lemma install_on_error_retry:
  assumes "any_in error_messages err"
    and "pi_extract_package_name env err (INTERPRETER_LANGUAGE s) (world s) = Inr (Some pkg)"
    and "pkg \<noteq> []"
    and "fst (pi_install_package env pkg (INTERPRETER_LANGUAGE s) (world s)) = Inr ()"
  shows "result_of (install_on_error env code os_name (Some err)) s =
           result_of (seq (execute_code env code os_name) show_result)
             (s\<lparr>world := snd (pi_install_package env pkg (INTERPRETER_LANGUAGE s) (world s))\<rparr>)"
    and "events_of (install_on_error env code os_name (Some err)) s =
           Install pkg (INTERPRETER_LANGUAGE s) # Sleep 10 #
           events_of (seq (execute_code env code os_name) show_result)
             (s\<lparr>world := snd (pi_install_package env pkg (INTERPRETER_LANGUAGE s) (world s))\<rparr>)"
    and "state_after (install_on_error env code os_name (Some err)) s =
           state_after (seq (execute_code env code os_name) show_result)
             (s\<lparr>world := snd (pi_install_package env pkg (INTERPRETER_LANGUAGE s) (world s))\<rparr>)"
  using assms by (simp_all add: install_on_error_def seq_simps)

text \<open>
  Claim C1. In every iteration of the session loop, whatever the collaborators do,
  the calls of the Execution Dispatcher, of the installer and of the sleep are, in
  order, none at all, or one dispatch, or a dispatch and an installation (the
  installer raised), or a dispatch, an installation, the sleep of 10 and a second
  dispatch, with the code and the \<open>os_name\<close> of the first: the dispatcher is called
  at most twice and nothing follows the second call, whatever it returns.

  For the code \<open>code\<close> extracted in an iteration (lines 472 to 531, from a state
  \<open>s'\<close>): when the code is saved without an exception, the first attempt returns an
  error text containing one of the four signatures, a non-empty package name is
  extracted from it and the installer returns, then the calls are exactly the
  dispatch, the installation of that package for the target language, the sleep of
  10 and one more dispatch of the same code and \<open>os_name\<close>; and what the iteration
  does from there is what one call of the dispatcher, the display of its result and
  the opening of the resource files do in the world the installer left.
\<close>

theorem recovery_retries_once:
  "(let recovery = filter is_recovery (events_of (iteration env os_name start_sep end_sep skip_first_line) s)
    in recovery = [] \<or>
       (\<exists>first_code. recovery = [Dispatch first_code os_name] \<or>
          (\<exists>package language.
             recovery = [Dispatch first_code os_name, Install package language] \<or>
             recovery = [Dispatch first_code os_name, Install package language, Sleep 10,
                         Dispatch first_code os_name]))) \<and>
   length (filter is_dispatch (events_of (iteration env os_name start_sep end_sep skip_first_line) s)) \<le> 2 \<and>
   (\<forall>out err pkg.
      let s0 = state_after (save_extracted_code env code) s';
          s1 = state_after (execute_code env code os_name) s0;
          language = INTERPRETER_LANGUAGE s1;
          installation = pi_install_package env pkg language (world s1);
          second = seq (execute_code env code os_name) (\<lambda>r. seq (show_result r) (\<lambda>_. open_resources env))
      in result_of (save_extracted_code env code) s' = Inr () \<and>
         result_of (execute_code env code os_name) s0 = Inr (out, Some err) \<and>
         any_in error_messages err \<and>
         pi_extract_package_name env err language (world s1) = Inr (Some pkg) \<and> pkg \<noteq> [] \<and>
         fst installation = Inr ()
         \<longrightarrow>
         filter is_recovery (events_of (run_extracted_code env code os_name) s') =
           [Dispatch code os_name, Install pkg language, Sleep 10, Dispatch code os_name] \<and>
         result_of (run_extracted_code env code os_name) s' =
           result_of second (s1\<lparr>world := snd installation\<rparr>) \<and>
         state_after (run_extracted_code env code os_name) s' =
           state_after second (s1\<lparr>world := snd installation\<rparr>))"
proof (intro conjI allI)
  define recovery where
    "recovery = filter is_recovery (events_of (iteration env os_name start_sep end_sep skip_first_line) s)"
  have shape: "recovery = [] \<or>
       (\<exists>first_code. recovery = [Dispatch first_code os_name] \<or>
          (\<exists>package language.
             recovery = [Dispatch first_code os_name, Install package language] \<or>
             recovery = [Dispatch first_code os_name, Install package language, Sleep 10,
                         Dispatch first_code os_name]))"
  proof -
    from recovery_in_iteration[of env os_name start_sep end_sep skip_first_line s]
    consider "recovery = []"
      | first_code s2 where
        "recovery = filter is_recovery (events_of (run_extracted_code env first_code os_name) s2)"
      unfolding recovery_def by blast
    then show ?thesis
    proof cases
      case 1
      then show ?thesis by simp
    next
      case 2
      from recovery_shape_run_extracted_code[of env first_code os_name s2] show ?thesis
        unfolding 2 by blast
    qed
  qed
  then show "let recovery = filter is_recovery (events_of (iteration env os_name start_sep end_sep skip_first_line) s)
    in recovery = [] \<or>
       (\<exists>first_code. recovery = [Dispatch first_code os_name] \<or>
          (\<exists>package language.
             recovery = [Dispatch first_code os_name, Install package language] \<or>
             recovery = [Dispatch first_code os_name, Install package language, Sleep 10,
                         Dispatch first_code os_name]))"
    unfolding Let_def recovery_def .
  have "length (filter is_dispatch recovery) \<le> 2"
    using shape by auto
  then show "length (filter is_dispatch (events_of (iteration env os_name start_sep end_sep skip_first_line) s)) \<le> 2"
    unfolding recovery_def dispatch_is_recovery[symmetric] .
next
  fix out err pkg
  define s0 where "s0 = state_after (save_extracted_code env code) s'"
  define s1 where "s1 = state_after (execute_code env code os_name) s0"
  define w where "w = snd (pi_install_package env pkg (INTERPRETER_LANGUAGE s1) (world s1))"
  have "result_of (save_extracted_code env code) s' = Inr () \<and>
         result_of (execute_code env code os_name) s0 = Inr (out, Some err) \<and>
         any_in error_messages err \<and>
         pi_extract_package_name env err (INTERPRETER_LANGUAGE s1) (world s1) = Inr (Some pkg) \<and> pkg \<noteq> [] \<and>
         fst (pi_install_package env pkg (INTERPRETER_LANGUAGE s1) (world s1)) = Inr ()
         \<longrightarrow>
         filter is_recovery (events_of (run_extracted_code env code os_name) s') =
           [Dispatch code os_name, Install pkg (INTERPRETER_LANGUAGE s1), Sleep 10, Dispatch code os_name] \<and>
         result_of (run_extracted_code env code os_name) s' =
           result_of (seq (execute_code env code os_name) (\<lambda>r. seq (show_result r) (\<lambda>_. open_resources env)))
             (s1\<lparr>world := w\<rparr>) \<and>
         state_after (run_extracted_code env code os_name) s' =
           state_after (seq (execute_code env code os_name) (\<lambda>r. seq (show_result r) (\<lambda>_. open_resources env)))
             (s1\<lparr>world := w\<rparr>)"
  proof (intro impI, elim conjE)
    assume saved: "result_of (save_extracted_code env code) s' = Inr ()"
      and first: "result_of (execute_code env code os_name) s0 = Inr (out, Some err)"
      and sig: "any_in error_messages err"
      and pkg: "pi_extract_package_name env err (INTERPRETER_LANGUAGE s1) (world s1) = Inr (Some pkg)"
      and ne: "pkg \<noteq> []"
      and inst: "fst (pi_install_package env pkg (INTERPRETER_LANGUAGE s1) (world s1)) = Inr ()"
    note retry = install_on_error_retry[OF sig pkg ne inst, of code os_name, folded w_def]
    have ev: "filter is_recovery (events_of (run_extracted_code env code os_name) s') =
           [Dispatch code os_name, Install pkg (INTERPRETER_LANGUAGE s1), Sleep 10, Dispatch code os_name]"
      using saved first
      by (simp add: recovery_in_run_extracted_code s0_def[symmetric] s1_def[symmetric] retry(2) filter_seq
          split: sum.split)
    have res: "result_of (run_extracted_code env code os_name) s' =
           result_of (seq (execute_code env code os_name) (\<lambda>r. seq (show_result r) (\<lambda>_. open_resources env)))
             (s1\<lparr>world := w\<rparr>)"
      using saved first
      by (simp add: run_extracted_code_def seq_simps s0_def[symmetric] s1_def[symmetric] retry(1) retry(3)
          split: sum.split)
    have st: "state_after (run_extracted_code env code os_name) s' =
           state_after (seq (execute_code env code os_name) (\<lambda>r. seq (show_result r) (\<lambda>_. open_resources env)))
             (s1\<lparr>world := w\<rparr>)"
      using saved first
      by (simp add: run_extracted_code_def seq_simps s0_def[symmetric] s1_def[symmetric] retry(1) retry(3)
          split: sum.split)
    from ev res st show "filter is_recovery (events_of (run_extracted_code env code os_name) s') =
           [Dispatch code os_name, Install pkg (INTERPRETER_LANGUAGE s1), Sleep 10, Dispatch code os_name] \<and>
         result_of (run_extracted_code env code os_name) s' =
           result_of (seq (execute_code env code os_name) (\<lambda>r. seq (show_result r) (\<lambda>_. open_resources env)))
             (s1\<lparr>world := w\<rparr>) \<and>
         state_after (run_extracted_code env code os_name) s' =
           state_after (seq (execute_code env code os_name) (\<lambda>r. seq (show_result r) (\<lambda>_. open_resources env)))
             (s1\<lparr>world := w\<rparr>)"
      by simp
  qed
  then show "let s0 = state_after (save_extracted_code env code) s';
          s1 = state_after (execute_code env code os_name) s0;
          language = INTERPRETER_LANGUAGE s1;
          installation = pi_install_package env pkg language (world s1);
          second = seq (execute_code env code os_name) (\<lambda>r. seq (show_result r) (\<lambda>_. open_resources env))
      in result_of (save_extracted_code env code) s' = Inr () \<and>
         result_of (execute_code env code os_name) s0 = Inr (out, Some err) \<and>
         any_in error_messages err \<and>
         pi_extract_package_name env err language (world s1) = Inr (Some pkg) \<and> pkg \<noteq> [] \<and>
         fst installation = Inr ()
         \<longrightarrow>
         filter is_recovery (events_of (run_extracted_code env code os_name) s') =
           [Dispatch code os_name, Install pkg language, Sleep 10, Dispatch code os_name] \<and>
         result_of (run_extracted_code env code os_name) s' =
           result_of second (s1\<lparr>world := snd installation\<rparr>) \<and>
         state_after (run_extracted_code env code os_name) s' =
           state_after second (s1\<lparr>world := snd installation\<rparr>)"
    unfolding Let_def s0_def s1_def w_def .
qed


lemma code_save:
  "save_extracted_code sim_env code (code_state_at m h w) = (Inr (), [], code_state_at m h w)"
  by (simp add: save_extracted_code_def seq_def get_state_def ret_def Let_def)

text \<open>
  The Code-mode session: the first attempt fails for want of \<open>pandas\<close>, the package
  is installed, and the program is run a second and last time; the runner has then
  been given the program twice.
\<close>

theorem recovery_retries_once_witness:
  "filter is_recovery (events_of (iteration sim_env ''Linux'' fence fence False) (code_state [''use pandas''])) =
     [Dispatch ''import pandas'' ''Linux'', Install ''pandas'' ''python'', Sleep 10,
      Dispatch ''import pandas'' ''Linux''] \<and>
   (let s' = code_state_at ''huggingface/code-llama'' [] (world_at [] []);
        s0 = state_after (save_extracted_code sim_env ''import pandas'') s';
        s1 = state_after (execute_code sim_env ''import pandas'' ''Linux'') s0
    in result_of (save_extracted_code sim_env ''import pandas'') s' = Inr () \<and>
       result_of (execute_code sim_env ''import pandas'' ''Linux'') s0 =
         Inr (Some [], Some ''ModuleNotFoundError: No module named pandas'') \<and>
       any_in error_messages ''ModuleNotFoundError: No module named pandas'' \<and>
       pi_extract_package_name sim_env ''ModuleNotFoundError: No module named pandas''
         (INTERPRETER_LANGUAGE s1) (world s1) = Inr (Some ''pandas'') \<and>
       fst (pi_install_package sim_env ''pandas'' (INTERPRETER_LANGUAGE s1) (world s1)) = Inr () \<and>
       filter is_recovery (events_of (run_extracted_code sim_env ''import pandas'' ''Linux'') s') =
         [Dispatch ''import pandas'' ''Linux'', Install ''pandas'' ''python'', Sleep 10,
          Dispatch ''import pandas'' ''Linux''] \<and>
       state_after (run_extracted_code sim_env ''import pandas'' ''Linux'') s' =
         code_state_at ''huggingface/code-llama'' []
           (world_at [''pandas''] [''import pandas'', ''import pandas'']))"
  using recovery_retries_once[of sim_env "''Linux''" fence fence False "code_state [''use pandas'']"
      "''import pandas''" "code_state_at ''huggingface/code-llama'' [] (world_at [] [])"]
  by (simp add: Let_def result_of_def events_of_def state_after_def code_run code_save
      code_first_attempt code_run_extracted missing_module_matches)

section \<open>Clean-up of the transient files\<close>

lemma get_mode_prompt_events [simp]:
  "events_of (get_mode_prompt task os_name) s = [ModePrompt task os_name]"
  by (simp add: get_mode_prompt_def get_code_prompt_def get_script_prompt_def get_command_prompt_def
      handle_vision_mode_def seq_simps Let_def)


lemma attach_file_data_events [simp]: "events_of (attach_file_data env prompt) s = []"
  using runs_events[OF runs_attach_file_data, of env prompt s]
  by (cases "events_of (attach_file_data env prompt) s") simp_all















end
